theory Spec2Isabelle
  imports Complex_Main "HOL-Library.Word"
begin

section \<open>Data model of the camera driver node\<close>

text \<open>
  The embedding follows \<^verbatim>\<open>src/camera_driver.cpp\<close>. The class \<^verbatim>\<open>CameraDriver\<close> becomes a
  record of the members the modelled functions read or write; every member function
  becomes a function from the record to the updated record.

  Conventions:
  \<^item> a \<^verbatim>\<open>double\<close> that goes to the device or comes back from it is a value of the type
    \<open>double\<close> below: finite, infinite or NaN, with the rounding of IEEE 754 binary64;
  \<^item> the \<^verbatim>\<open>float\<close> gain of a control command and the rates of the status report are real
    numbers: a finite value each, and the rates are computed without rounding;
  \<^item> \<^verbatim>\<open>uint32_t\<close> is a 32-bit word;
  \<^item> the log stream is a list of entries, the newest last; an entry keeps the severity
    and the pieces inserted with \<^verbatim>\<open><<\<close> (\<open>Dbl\<close> for a number given as a real,
    \<open>Val\<close> for a \<open>double\<close>, \<open>HostText\<close> for a text that the host produces, such as the
    \<^verbatim>\<open>what()\<close> of one of its exceptions);
  \<^item> the device driver is an external collaborator: it is a record of reply functions,
    each reading the history of the calls made so far, so that any deterministic device,
    stateful or not, is an instance. A reply \<open>Inl what\<close> is a thrown
    \<^verbatim>\<open>DriverException\<close>; a reply \<open>Inr (msg, retV)\<close> is a normal return;
  \<^item> every setting call that reaches the device is appended to \<open>calls\<close>;
  \<^item> a member \<^verbatim>\<open>x_\<close> of the class is the field \<open>x\<close> of the record (\<open>log\<close> being a
    function on the reals, the log stream is \<open>logged\<close>); the node type \<^verbatim>\<open>INT\<close> is
    \<open>INT'\<close>, \<open>INT\<close> being notation of HOL.
\<close>

subsection \<open>Double-precision numbers\<close>

text \<open>
  \<open>Finite x\<close> stands for the binary64 value \<open>x\<close>; for a real \<open>x\<close> that is no binary64
  value it stands for no machine value, and what is proved for every \<open>double\<close> holds
  for the machine values among them. The two zeros are one value: no operation below
  tells them apart. An operation on finite operands rounds its exact
  result to the nearest binary64 value, ties to the even significand, and gives an
  infinity when the rounded result is out of range (\<open>round_double\<close>); the unit in the
  last place of a subnormal result is \<open>2 powi - 1074\<close>.
\<close>

datatype double = Finite real | PosInf | NegInf | NaN

definition round_even :: "real \<Rightarrow> int" where
  "round_even m =
     (let f = \<lfloor>m\<rfloor>; r = m - of_int f
      in if r < 1 / 2 then f else if r > 1 / 2 then f + 1
         else if even f then f else f + 1)"

definition ulp_exponent :: "real \<Rightarrow> int" where
  "ulp_exponent x = max \<lfloor>log 2 \<bar>x\<bar>\<rfloor> (- 1022) - 52"

definition round_double :: "real \<Rightarrow> double" where
  "round_double x =
     (if x = 0 then Finite 0
      else
        (let u = 2 powi ulp_exponent x;
             y = of_int (round_even (x / u)) * u
         in if \<bar>y\<bar> \<ge> 2 ^ 1024 then (if x > 0 then PosInf else NegInf) else Finite y))"

fun dneg :: "double \<Rightarrow> double" where
  "dneg (Finite x) = Finite (- x)"
| "dneg PosInf = NegInf"
| "dneg NegInf = PosInf"
| "dneg NaN = NaN"

fun dabs :: "double \<Rightarrow> double" where
  "dabs (Finite x) = Finite \<bar>x\<bar>"
| "dabs PosInf = PosInf"
| "dabs NegInf = PosInf"
| "dabs NaN = NaN"

fun dadd :: "double \<Rightarrow> double \<Rightarrow> double" where
  "dadd (Finite x) (Finite y) = round_double (x + y)"
| "dadd (Finite x) PosInf = PosInf"
| "dadd (Finite x) NegInf = NegInf"
| "dadd PosInf (Finite y) = PosInf"
| "dadd PosInf PosInf = PosInf"
| "dadd PosInf NegInf = NaN"
| "dadd NegInf (Finite y) = NegInf"
| "dadd NegInf NegInf = NegInf"
| "dadd NegInf PosInf = NaN"
| "dadd NaN b = NaN"
| "dadd a NaN = NaN"

definition dsub :: "double \<Rightarrow> double \<Rightarrow> double" where
  "dsub a b = dadd a (dneg b)"

fun dmul :: "double \<Rightarrow> double \<Rightarrow> double" where
  "dmul (Finite x) (Finite y) = round_double (x * y)"
| "dmul (Finite x) PosInf = (if x = 0 then NaN else if x > 0 then PosInf else NegInf)"
| "dmul (Finite x) NegInf = (if x = 0 then NaN else if x > 0 then NegInf else PosInf)"
| "dmul PosInf (Finite y) = (if y = 0 then NaN else if y > 0 then PosInf else NegInf)"
| "dmul NegInf (Finite y) = (if y = 0 then NaN else if y > 0 then NegInf else PosInf)"
| "dmul PosInf PosInf = PosInf"
| "dmul PosInf NegInf = NegInf"
| "dmul NegInf PosInf = NegInf"
| "dmul NegInf NegInf = PosInf"
| "dmul NaN b = NaN"
| "dmul a NaN = NaN"

text \<open>The comparisons \<^verbatim>\<open>a > b\<close> and \<^verbatim>\<open>a <= b\<close>; both are false when an operand is NaN.\<close>

fun dgt :: "double \<Rightarrow> double \<Rightarrow> bool" where
  "dgt (Finite x) (Finite y) = (x > y)"
| "dgt (Finite x) PosInf = False"
| "dgt (Finite x) NegInf = True"
| "dgt PosInf (Finite y) = True"
| "dgt PosInf PosInf = False"
| "dgt PosInf NegInf = True"
| "dgt NegInf b = False"
| "dgt NaN b = False"
| "dgt a NaN = False"

fun dle :: "double \<Rightarrow> double \<Rightarrow> bool" where
  "dle (Finite x) (Finite y) = (x \<le> y)"
| "dle (Finite x) PosInf = True"
| "dle (Finite x) NegInf = False"
| "dle PosInf (Finite y) = False"
| "dle PosInf PosInf = True"
| "dle PosInf NegInf = False"
| "dle NegInf NaN = False"
| "dle NegInf b = True"
| "dle NaN b = False"
| "dle a NaN = False"

subsection \<open>The node\<close>

datatype NodeType = INVALID | ENUM | FLOAT | INT' | BOOL

datatype ParameterType =
    PARAMETER_NOT_SET | PARAMETER_BOOL | PARAMETER_INTEGER | PARAMETER_DOUBLE
  | PARAMETER_STRING | PARAMETER_BYTE_ARRAY | PARAMETER_BOOL_ARRAY
  | PARAMETER_INTEGER_ARRAY | PARAMETER_DOUBLE_ARRAY | PARAMETER_STRING_ARRAY

record ParameterDescriptor =
  desc_name :: string
  desc_type :: ParameterType
  description :: string

record NodeInfo =
  name :: string
  type :: NodeType
  descriptor :: ParameterDescriptor

datatype severity = INFO | WARN | ERROR

datatype frag =
    Txt string | Dbl real | Val double | NotFinite | Num int | Flag bool | Kind NodeType
  | PType ParameterType | HostText

type_synonym log_entry = "severity \<times> frag list"

datatype dev_call =
    SetEnum string string
  | SetDouble string double
  | SetInt string int
  | SetBool string bool

record Driver =
  drv_setEnum :: "dev_call list \<Rightarrow> string \<Rightarrow> string \<Rightarrow> string + string \<times> string"
  drv_setDouble :: "dev_call list \<Rightarrow> string \<Rightarrow> double \<Rightarrow> string + string \<times> double"
  drv_setInt :: "dev_call list \<Rightarrow> string \<Rightarrow> int \<Rightarrow> string + string \<times> int"
  drv_setBool :: "dev_call list \<Rightarrow> string \<Rightarrow> bool \<Rightarrow> string + string \<times> bool"
  drv_getSerialNumbers :: "nat \<Rightarrow> string list"
  drv_initCamera :: "string \<Rightarrow> bool"
  drv_startCamera :: bool
  drv_getReceiveFrameRate :: real
  drv_getPixelFormat :: string
  drv_getLibraryVersion :: string

text \<open>
  What escapes a function: a \<^verbatim>\<open>DriverException\<close> with its message, or the dereference of
  an empty \<^verbatim>\<open>driver_\<close> pointer, which no handler of the source catches.
\<close>

datatype exn = DriverException string | NullDriver

text \<open>
  Modelled from the spec: the header \<^verbatim>\<open>camera_driver.h\<close>, which declares the members, is
  not among the sources. The spec gives \<open>currentExposureTime\<close> as an unsigned integer,
  \<open>currentGain\<close> as a floating point number, and two counters; the counters are natural
  numbers here, and \<open>parameterMap\<close> is a map from logical names to node infos.
\<close>

record 'f CameraDriver =
  serial :: string
  debug :: bool
  dumpNodeMap :: bool
  parameterFile :: string
  driver :: "Driver option"
  parameterMap :: "string \<rightharpoonup> NodeInfo"
  parameterList :: "string list"
  declared :: "string list"
  currentExposureTime :: "32 word"
  currentGain :: real
  imageQueue :: "'f list"
  droppedCount :: nat
  publishedCount :: nat
  lastStatusTime :: int
  keepRunning :: bool
  cameraRunning :: bool
  thread :: bool
  logged :: "log_entry list"
  calls :: "dev_call list"

text \<open>\<^verbatim>\<open>std::numeric_limits<float>::lowest()\<close>, the most negative finite single-precision value.\<close>

definition float_lowest :: real where
  "float_lowest = - ((2 - 1 / 2 ^ 23) * 2 ^ 127)"

definition LOG :: "severity \<Rightarrow> frag list \<Rightarrow> 'f CameraDriver \<Rightarrow> 'f CameraDriver" where
  "LOG lvl m s = s\<lparr>logged := logged s @ [(lvl, m)]\<rparr>"

section \<open>Frame handoff queue\<close>

text \<open>
  \<^verbatim>\<open>publishImage\<close> is the device callback. Its body runs under the mutex, and so does the
  locked section of \<^verbatim>\<open>run\<close>; the two are therefore atomic with respect to each other and
  an execution is a sequence of these two steps.
\<close>

definition publishImage :: "'f \<Rightarrow> 'f CameraDriver \<Rightarrow> 'f CameraDriver" where
  "publishImage im s =
     (if length (imageQueue s) < 2
      then s\<lparr>imageQueue := imageQueue s @ [im]\<rparr>
      else s\<lparr>droppedCount := droppedCount s + 1\<rparr>)"

text \<open>
  The locked section of \<^verbatim>\<open>run\<close>, once the wait is over: \<^verbatim>\<open>back()\<close> and \<^verbatim>\<open>pop_back()\<close>
  when the queue is not empty, no image otherwise.
\<close>

definition run_locked_section :: "'f CameraDriver \<Rightarrow> 'f option \<times> 'f CameraDriver" where
  "run_locked_section s =
     (if imageQueue s \<noteq> []
      then (Some (last (imageQueue s)), s\<lparr>imageQueue := butlast (imageQueue s)\<rparr>)
      else (None, s))"

datatype 'f queue_op = Push 'f | Pop

fun queue_step :: "'f queue_op \<Rightarrow> 'f CameraDriver \<Rightarrow> 'f CameraDriver" where
  "queue_step (Push im) s = publishImage im s"
| "queue_step Pop s = snd (run_locked_section s)"

fun queue_exec :: "'f queue_op list \<Rightarrow> 'f CameraDriver \<Rightarrow> 'f CameraDriver" where
  "queue_exec [] s = s"
| "queue_exec (x # xs) s = queue_exec xs (queue_step x s)"

fun pushed :: "'f queue_op list \<Rightarrow> 'f list" where
  "pushed [] = []"
| "pushed (Push im # xs) = im # pushed xs"
| "pushed (Pop # xs) = pushed xs"

text \<open>A node right after construction of its members, with nothing loaded.\<close>

definition fresh :: "'f CameraDriver" where
  "fresh = \<lparr>serial = [], debug = False, dumpNodeMap = False, parameterFile = [], driver = None,
     parameterMap = Map.empty, parameterList = [], declared = [],
     currentExposureTime = 0, currentGain = float_lowest, imageQueue = [],
     droppedCount = 0, publishedCount = 0, lastStatusTime = 0,
     keepRunning = False, cameraRunning = False, thread = False,
     logged = [], calls = []\<rparr>"

section \<open>Parameter registry\<close>

text \<open>
  \<^verbatim>\<open>make_desc\<close>. The flag \<^verbatim>\<open>dynamic_typing\<close>, which exists in some versions of the host
  only and is set when it exists, is not part of the descriptor here.
\<close>

definition make_desc :: "string \<Rightarrow> ParameterType \<Rightarrow> ParameterDescriptor" where
  "make_desc n ty = \<lparr>desc_name = n, desc_type = ty, description = n\<rparr>"

text \<open>
  The constructor of \<^verbatim>\<open>NodeInfo\<close>. For a node type that is none of the four words the
  constructor assigns nothing: the type stays \<open>INVALID\<close> and the descriptor stays
  the default-constructed one.
\<close>

definition NodeInfo_ctor :: "string \<Rightarrow> string \<Rightarrow> NodeInfo" where
  "NodeInfo_ctor n nodeType =
     (if nodeType = ''float'' then
        \<lparr>name = n, type = FLOAT, descriptor = make_desc n PARAMETER_DOUBLE\<rparr>
      else if nodeType = ''int'' then
        \<lparr>name = n, type = INT', descriptor = make_desc n PARAMETER_INTEGER\<rparr>
      else if nodeType = ''bool'' then
        \<lparr>name = n, type = BOOL, descriptor = make_desc n PARAMETER_BOOL\<rparr>
      else if nodeType = ''enum'' then
        \<lparr>name = n, type = ENUM, descriptor = make_desc n PARAMETER_STRING\<rparr>
      else
        \<lparr>name = n, type = INVALID,
         descriptor = \<lparr>desc_name = [], desc_type = PARAMETER_NOT_SET, description = []\<rparr>\<rparr>)"

text \<open>\<^verbatim>\<open>std::map::insert\<close>: a key that is already present keeps its value.\<close>

definition map_insert :: "('k \<rightharpoonup> 'v) \<Rightarrow> 'k \<Rightarrow> 'v \<Rightarrow> ('k \<rightharpoonup> 'v)" where
  "map_insert m k v = (case m k of None \<Rightarrow> m(k \<mapsto> v) | Some old \<Rightarrow> m)"

text \<open>
  The tokens of a line, as \<^verbatim>\<open>while (iss >> std::quoted(s)) tokens.push_back(s)\<close> of the
  C++ standard library collects them: white space separates the tokens; a token that
  starts with a double quote runs to the closing double quote, a backslash taking the
  next character as it is; when the line ends inside the quotes the extraction fails and
  the loop ends without that token. The functions below take the tokenizer as a
  parameter \<open>tok\<close>; \<open>quoted_tokens\<close> is the instance used on concrete files.
\<close>

definition is_space :: "char \<Rightarrow> bool" where
  "is_space c = (c \<in> set [CHR '' '', CHR 0x09, CHR 0x0A, CHR 0x0B, CHR 0x0C, CHR 0x0D])"

datatype scan = Skip | Word string | Quoted string | Escaped string

fun tok_scan :: "scan \<Rightarrow> string list \<Rightarrow> string \<Rightarrow> string list" where
  "tok_scan Skip ts [] = ts"
| "tok_scan (Word w) ts [] = ts @ [w]"
| "tok_scan (Quoted q) ts [] = ts"
| "tok_scan (Escaped q) ts [] = ts"
| "tok_scan Skip ts (c # cs) =
     (if is_space c then tok_scan Skip ts cs
      else if c = CHR 0x22 then tok_scan (Quoted []) ts cs
      else tok_scan (Word [c]) ts cs)"
| "tok_scan (Word w) ts (c # cs) =
     (if is_space c then tok_scan Skip (ts @ [w]) cs
      else tok_scan (Word (w @ [c])) ts cs)"
| "tok_scan (Quoted q) ts (c # cs) =
     (if c = CHR 0x5C then tok_scan (Escaped q) ts cs
      else if c = CHR 0x22 then tok_scan Skip (ts @ [q]) cs
      else tok_scan (Quoted (q @ [c])) ts cs)"
| "tok_scan (Escaped q) ts (c # cs) = tok_scan (Quoted (q @ [c])) ts cs"

definition quoted_tokens :: "string \<Rightarrow> string list" where
  "quoted_tokens l = tok_scan Skip [] l"

text \<open>
  The body of the \<^verbatim>\<open>while (getline(f, l))\<close> loop of \<^verbatim>\<open>readParameterFile\<close>, over the
  lines that are left.
\<close>

fun read_lines ::
  "(string \<Rightarrow> string list) \<Rightarrow> string list \<Rightarrow> 'f CameraDriver \<Rightarrow> 'f CameraDriver" where
  "read_lines tok [] s = s"
| "read_lines tok (l # ls) s =
     (let tokens = tok l in
      if tokens \<noteq> [] then
        if tokens ! 0 \<noteq> [] \<and> hd (tokens ! 0) = CHR ''#'' then read_lines tok ls s
        else if length tokens \<noteq> 3 then
          read_lines tok ls (LOG WARN [Txt ''skipping bad camera param line: '', Txt l] s)
        else
          read_lines tok ls
            (s\<lparr>parameterMap :=
                 map_insert (parameterMap s) (tokens ! 0)
                   (NodeInfo_ctor (tokens ! 2) (tokens ! 1)),
               parameterList := parameterList s @ [tokens ! 0]\<rparr>)
      else read_lines tok ls s)"

text \<open>
  The file system is a function \<open>fs\<close> from a path to the lines of the file, \<open>None\<close>
  when the file cannot be opened.
\<close>

definition readParameterFile ::
  "(string \<Rightarrow> string list) \<Rightarrow> (string \<Rightarrow> string list option) \<Rightarrow> 'f CameraDriver
     \<Rightarrow> bool \<times> 'f CameraDriver" where
  "readParameterFile tok fs s =
     (case fs (parameterFile s) of
        None \<Rightarrow>
          (False, LOG ERROR [Txt ''cannot read parameter definition file: '',
                             Txt (parameterFile s)] s)
      | Some ls \<Rightarrow> (True, read_lines tok ls s))"

text \<open>
  \<^verbatim>\<open>createCameraParameters\<close>: every listed name that the map knows is declared to the
  host; \<open>declared\<close> records the names in the order of the calls. When the host rejects
  the type of an override the source declares the name again, ignoring the override, so
  the name is declared on both paths.
\<close>

fun createCameraParameters_loop :: "string list \<Rightarrow> 'f CameraDriver \<Rightarrow> 'f CameraDriver" where
  "createCameraParameters_loop [] s = s"
| "createCameraParameters_loop (n # ns) s =
     (case parameterMap s n of
        Some ni \<Rightarrow> createCameraParameters_loop ns (s\<lparr>declared := declared s @ [n]\<rparr>)
      | None \<Rightarrow> createCameraParameters_loop ns s)"

definition createCameraParameters :: "'f CameraDriver \<Rightarrow> 'f CameraDriver" where
  "createCameraParameters s = createCameraParameters_loop (parameterList s) s"

section \<open>Typed setting applier\<close>

text \<open>
  The four setters have one shape: log the request, call the device, then lower the
  status once when the device's message is not \<^verbatim>\<open>OK\<close> and once when the value read back
  does not agree. A thrown \<^verbatim>\<open>DriverException\<close> leaves the function after the call was
  made. The dereference of \<^verbatim>\<open>driver_\<close> needs a driver.
\<close>

definition setEnum ::
  "string \<Rightarrow> string \<Rightarrow> 'f CameraDriver \<Rightarrow> (exn + bool) \<times> 'f CameraDriver" where
  "setEnum nodeName v s0 =
     (let s = LOG INFO [Txt ''setting '', Txt nodeName, Txt '' to: '', Txt v] s0 in
      case driver s of
        None \<Rightarrow> (Inl NullDriver, s)
      | Some d \<Rightarrow>
          (let s1 = s\<lparr>calls := calls s @ [SetEnum nodeName v]\<rparr> in
           case drv_setEnum d (calls s) nodeName v of
             Inl what \<Rightarrow> (Inl (DriverException what), s1)
           | Inr (msg, retV) \<Rightarrow>
               (let s2 = (if msg \<noteq> ''OK''
                          then LOG WARN [Txt ''setting '', Txt nodeName, Txt '' failed: '',
                                         Txt msg] s1
                          else s1);
                    s3 = (if v \<noteq> retV
                          then LOG WARN [Txt nodeName, Txt '' set to: '', Txt retV,
                                         Txt '' instead of: '', Txt v] s2
                          else s2)
                in (Inr (\<not> msg \<noteq> ''OK'' \<and> \<not> v \<noteq> retV), s3))))"

text \<open>
  The test of the second \<^verbatim>\<open>if\<close> of \<^verbatim>\<open>setDouble\<close>,
  \<^verbatim>\<open>std::abs(v - retV) > 0.025 * std::abs(v + retV)\<close>, in double arithmetic; the literal
  \<^verbatim>\<open>0.025\<close> is the double nearest to it.
\<close>

definition tolerance_exceeded :: "double \<Rightarrow> double \<Rightarrow> bool" where
  "tolerance_exceeded v retV =
     dgt (dabs (dsub v retV)) (dmul (round_double (25 / 1000)) (dabs (dadd v retV)))"

definition setDouble ::
  "string \<Rightarrow> double \<Rightarrow> 'f CameraDriver \<Rightarrow> (exn + bool) \<times> 'f CameraDriver" where
  "setDouble nodeName v s0 =
     (let s = LOG INFO [Txt ''setting '', Txt nodeName, Txt '' to: '', Val v] s0 in
      case driver s of
        None \<Rightarrow> (Inl NullDriver, s)
      | Some d \<Rightarrow>
          (let s1 = s\<lparr>calls := calls s @ [SetDouble nodeName v]\<rparr> in
           case drv_setDouble d (calls s) nodeName v of
             Inl what \<Rightarrow> (Inl (DriverException what), s1)
           | Inr (msg, retV) \<Rightarrow>
               (let s2 = (if msg \<noteq> ''OK''
                          then LOG WARN [Txt ''setting '', Txt nodeName, Txt '' failed: '',
                                         Txt msg] s1
                          else s1);
                    s3 = (if tolerance_exceeded v retV
                          then LOG WARN [Txt nodeName, Txt '' set to: '', Val retV,
                                         Txt '' instead of: '', Val v] s2
                          else s2)
                in (Inr (\<not> msg \<noteq> ''OK'' \<and> \<not> tolerance_exceeded v retV), s3))))"

definition setInt ::
  "string \<Rightarrow> int \<Rightarrow> 'f CameraDriver \<Rightarrow> (exn + bool) \<times> 'f CameraDriver" where
  "setInt nodeName v s0 =
     (let s = LOG INFO [Txt ''setting '', Txt nodeName, Txt '' to: '', Num v] s0 in
      case driver s of
        None \<Rightarrow> (Inl NullDriver, s)
      | Some d \<Rightarrow>
          (let s1 = s\<lparr>calls := calls s @ [SetInt nodeName v]\<rparr> in
           case drv_setInt d (calls s) nodeName v of
             Inl what \<Rightarrow> (Inl (DriverException what), s1)
           | Inr (msg, retV) \<Rightarrow>
               (let s2 = (if msg \<noteq> ''OK''
                          then LOG WARN [Txt ''setting '', Txt nodeName, Txt '' failed: '',
                                         Txt msg] s1
                          else s1);
                    s3 = (if v \<noteq> retV
                          then LOG WARN [Txt nodeName, Txt '' set to: '', Num retV,
                                         Txt '' instead of: '', Num v] s2
                          else s2)
                in (Inr (\<not> msg \<noteq> ''OK'' \<and> \<not> v \<noteq> retV), s3))))"

definition setBool ::
  "string \<Rightarrow> bool \<Rightarrow> 'f CameraDriver \<Rightarrow> (exn + bool) \<times> 'f CameraDriver" where
  "setBool nodeName v s0 =
     (let s = LOG INFO [Txt ''setting '', Txt nodeName, Txt '' to: '', Flag v] s0 in
      case driver s of
        None \<Rightarrow> (Inl NullDriver, s)
      | Some d \<Rightarrow>
          (let s1 = s\<lparr>calls := calls s @ [SetBool nodeName v]\<rparr> in
           case drv_setBool d (calls s) nodeName v of
             Inl what \<Rightarrow> (Inl (DriverException what), s1)
           | Inr (msg, retV) \<Rightarrow>
               (let s2 = (if msg \<noteq> ''OK''
                          then LOG WARN [Txt ''setting '', Txt nodeName, Txt '' failed: '',
                                         Txt msg] s1
                          else s1);
                    s3 = (if v \<noteq> retV
                          then LOG WARN [Txt nodeName, Txt '' set to: '', Flag retV,
                                         Txt '' instead of: '', Flag v] s2
                          else s2)
                in (Inr (\<not> msg \<noteq> ''OK'' \<and> \<not> v \<noteq> retV), s3))))"

text \<open>
  A parameter of the host: its name, its value, and the text that the host's
  \<^verbatim>\<open>value_to_string()\<close> gives for the value.
\<close>

datatype ParameterValue =
    NotSet | BoolV bool | IntegerV int | DoubleV double | StringV string
  | ByteArrayV "nat list" | BoolArrayV "bool list" | IntegerArrayV "int list"
  | DoubleArrayV "double list" | StringArrayV "string list"

record Parameter =
  get_name :: string
  get_value :: ParameterValue
  value_to_string :: string

definition get_type :: "Parameter \<Rightarrow> ParameterType" where
  "get_type p =
     (case get_value p of
        NotSet \<Rightarrow> PARAMETER_NOT_SET
      | BoolV b \<Rightarrow> PARAMETER_BOOL
      | IntegerV i \<Rightarrow> PARAMETER_INTEGER
      | DoubleV d \<Rightarrow> PARAMETER_DOUBLE
      | StringV t \<Rightarrow> PARAMETER_STRING
      | ByteArrayV xs \<Rightarrow> PARAMETER_BYTE_ARRAY
      | BoolArrayV xs \<Rightarrow> PARAMETER_BOOL_ARRAY
      | IntegerArrayV xs \<Rightarrow> PARAMETER_INTEGER_ARRAY
      | DoubleArrayV xs \<Rightarrow> PARAMETER_DOUBLE_ARRAY
      | StringArrayV xs \<Rightarrow> PARAMETER_STRING_ARRAY)"

text \<open>
  \<^verbatim>\<open>static_cast<double>\<close> of the 64-bit integer of the parameter rounds it to the nearest
  double.
\<close>

definition get_double_int_param :: "Parameter \<Rightarrow> bool \<times> double" where
  "get_double_int_param p =
     (case get_value p of
        DoubleV d \<Rightarrow> (True, d)
      | IntegerV i \<Rightarrow> (True, round_double (real_of_int i))
      | _ \<Rightarrow> (False, Finite 0))"

definition get_bool_int_param :: "Parameter \<Rightarrow> bool \<times> bool" where
  "get_bool_int_param p =
     (case get_value p of
        BoolV b \<Rightarrow> (True, b)
      | IntegerV i \<Rightarrow> (True, i \<noteq> 0)
      | _ \<Rightarrow> (False, False))"

text \<open>
  The conversion of a \<^verbatim>\<open>double\<close> argument to the 32-bit \<^verbatim>\<open>int\<close> parameter of \<^verbatim>\<open>setInt\<close>
  drops the fraction. For NaN, for an infinity and for a value whose integer part is no
  32-bit integer, C++ leaves the conversion undefined; the result here is what the
  conversion instruction of x86-64 delivers, the least 32-bit integer.
\<close>

definition double_to_int :: "double \<Rightarrow> int" where
  "double_to_int v =
     (case v of
        Finite x \<Rightarrow>
          (let t = (if 0 \<le> x then \<lfloor>x\<rfloor> else \<lceil>x\<rceil>)
           in if - (2 ^ 31) \<le> t \<and> t < 2 ^ 31 then t else - (2 ^ 31))
      | _ \<Rightarrow> - (2 ^ 31))"

text \<open>The callers of the setters drop the status that comes back.\<close>

definition discard :: "(exn + bool) \<times> 'f CameraDriver \<Rightarrow> (exn + unit) \<times> 'f CameraDriver" where
  "discard r = (case r of (Inl e, s) \<Rightarrow> (Inl e, s) | (Inr b, s) \<Rightarrow> (Inr (), s))"

definition setParameter ::
  "NodeInfo \<Rightarrow> Parameter \<Rightarrow> 'f CameraDriver \<Rightarrow> (exn + unit) \<times> 'f CameraDriver" where
  "setParameter ni p s =
     (case type ni of
        ENUM \<Rightarrow>
          discard (setEnum (name ni) (filter (\<lambda>c. c \<noteq> CHR 0x22) (value_to_string p)) s)
      | FLOAT \<Rightarrow>
          (let bd = get_double_int_param p in
           if fst bd then discard (setDouble (name ni) (snd bd) s)
           else (Inr (), LOG WARN [Txt ''bad non-float '', Txt (get_name p), Txt '' type: '',
                                   PType (get_type p)] s))
      | INT' \<Rightarrow>
          (let bd = get_double_int_param p in
           if fst bd then discard (setInt (name ni) (double_to_int (snd bd)) s)
           else (Inr (), LOG WARN [Txt ''bad non-int '', Txt (get_name p), Txt '' type: '',
                                   PType (get_type p)] s))
      | BOOL \<Rightarrow>
          (let bb = get_bool_int_param p in
           if fst bb then discard (setBool (name ni) (snd bb) s)
           else (Inr (), LOG WARN [Txt ''bad non-bool '', Txt (get_name p), Txt '' type: '',
                                   PType (get_type p)] s))
      | INVALID \<Rightarrow>
          (Inr (), LOG WARN [Txt ''invalid node type in map: '', Kind (type ni)] s))"

record SetParametersResult =
  successful :: bool
  reason :: string

text \<open>
  The loop of \<^verbatim>\<open>parameterChanged\<close>. The handler catches \<^verbatim>\<open>DriverException\<close> only; anything
  else leaves the loop and the function.
\<close>

fun parameterChanged_loop ::
  "Parameter list \<Rightarrow> 'f CameraDriver \<Rightarrow> exn option \<times> 'f CameraDriver" where
  "parameterChanged_loop [] s = (None, s)"
| "parameterChanged_loop (p # ps) s =
     (case parameterMap s (get_name p) of
        None \<Rightarrow> parameterChanged_loop ps s
      | Some ni \<Rightarrow>
          if driver s = None then
            parameterChanged_loop ps
              (LOG WARN [Txt ''got parameter update while driver is not ready!''] s)
          else if get_type p = PARAMETER_NOT_SET then parameterChanged_loop ps s
          else
            (case setParameter ni p s of
               (Inl (DriverException what), s') \<Rightarrow>
                 parameterChanged_loop ps
                   (LOG WARN [Txt ''param '', Txt (get_name p), Txt '' '', Txt what] s')
             | (Inl NullDriver, s') \<Rightarrow> (Some NullDriver, s')
             | (Inr u, s') \<Rightarrow> parameterChanged_loop ps s'))"

definition parameterChanged ::
  "Parameter list \<Rightarrow> 'f CameraDriver \<Rightarrow> (exn + SetParametersResult) \<times> 'f CameraDriver" where
  "parameterChanged params s =
     (case parameterChanged_loop params s of
        (Some e, s') \<Rightarrow> (Inl e, s')
      | (None, s') \<Rightarrow> (Inr \<lparr>successful = True, reason = ''all good!''\<rparr>, s'))"

section \<open>Control-state synchronizer\<close>

record CameraControl =
  exposure_time :: "32 word"
  gain :: real

text \<open>
  The two \<^verbatim>\<open>if\<close> blocks inside the \<^verbatim>\<open>try\<close> of \<^verbatim>\<open>controlCallback\<close>. Each gives the flag
  it sets (\<^verbatim>\<open>logTime\<close>, \<^verbatim>\<open>logGain\<close>), or what the setter throws; the member is assigned
  after the setter has returned, whatever status it returned. The conversions of the
  \<^verbatim>\<open>uint32_t\<close> and of the \<^verbatim>\<open>float\<close> to the \<^verbatim>\<open>double\<close> argument of the setter are exact.
\<close>

definition control_exposure ::
  "32 word \<Rightarrow> 'f CameraDriver \<Rightarrow> (exn + bool) \<times> 'f CameraDriver" where
  "control_exposure et s =
     (if et > 0 \<and> et \<noteq> currentExposureTime s then
        (case parameterMap s ''exposure_time'' of
           Some ni \<Rightarrow>
             (case setDouble (name ni) (Finite (real (unat et))) s of
                (Inl e, s') \<Rightarrow> (Inl e, s')
              | (Inr status, s') \<Rightarrow> (Inr True, s'\<lparr>currentExposureTime := et\<rparr>))
         | None \<Rightarrow>
             (Inr False,
              LOG WARN [Txt ''no node name defined for exposure_time, check .cfg file!''] s))
      else (Inr False, s))"

definition control_gain ::
  "real \<Rightarrow> 'f CameraDriver \<Rightarrow> (exn + bool) \<times> 'f CameraDriver" where
  "control_gain g s =
     (if g > float_lowest \<and> g \<noteq> currentGain s then
        (case parameterMap s ''gain'' of
           Some ni \<Rightarrow>
             (case setDouble (name ni) (Finite g) s of
                (Inl e, s') \<Rightarrow> (Inl e, s')
              | (Inr status, s') \<Rightarrow> (Inr True, s'\<lparr>currentGain := g\<rparr>))
         | None \<Rightarrow>
             (Inr False,
              LOG WARN [Txt ''no node name defined for exposure_time, check .cfg file!''] s))
      else (Inr False, s))"

text \<open>The two messages after the \<^verbatim>\<open>try\<close> block.\<close>

definition control_report ::
  "32 word \<Rightarrow> real \<Rightarrow> bool \<Rightarrow> bool \<Rightarrow> 'f CameraDriver \<Rightarrow> 'f CameraDriver" where
  "control_report et g logTime logGain s =
     (let s1 = (if logTime
                then LOG INFO [Txt ''changed exposure time to '', Num (uint et), Txt ''us''] s
                else s)
      in if logGain then LOG INFO [Txt ''changed gain to '', Dbl g, Txt ''db''] s1 else s1)"

text \<open>
  \<^verbatim>\<open>controlCallback\<close>: one \<^verbatim>\<open>try\<close> block holds both fields, and one handler for
  \<^verbatim>\<open>DriverException\<close> follows it. The result is \<open>None\<close> when the function returns, and
  what escapes otherwise.
\<close>

definition controlCallback ::
  "CameraControl \<Rightarrow> 'f CameraDriver \<Rightarrow> exn option \<times> 'f CameraDriver" where
  "controlCallback msg s =
     (let et = exposure_time msg; g = gain msg in
      case control_exposure et s of
        (Inl (DriverException what), s1) \<Rightarrow>
          (None, control_report et g False False
                   (LOG WARN [Txt ''failed to control: '', Txt what] s1))
      | (Inl NullDriver, s1) \<Rightarrow> (Some NullDriver, s1)
      | (Inr logTime, s1) \<Rightarrow>
          (case control_gain g s1 of
             (Inl (DriverException what), s2) \<Rightarrow>
               (None, control_report et g logTime False
                        (LOG WARN [Txt ''failed to control: '', Txt what] s2))
           | (Inl NullDriver, s2) \<Rightarrow> (Some NullDriver, s2)
           | (Inr logGain, s2) \<Rightarrow> (None, control_report et g logTime logGain s2)))"

section \<open>Status report\<close>






section \<open>Startup\<close>

text \<open>
  The node options give the values of the declared parameters; a parameter that the
  options do not set takes the default written in \<^verbatim>\<open>readParameters\<close>. An override of
  \<^verbatim>\<open>debug\<close> that is no boolean makes the host throw
  \<^verbatim>\<open>InvalidParameterTypeException\<close>, which \<^verbatim>\<open>readParameters\<close> catches. The parameters that
  the modelled functions do not read (\<^verbatim>\<open>camerainfo_url\<close>, \<^verbatim>\<open>frame_id\<close>,
  \<^verbatim>\<open>image_queue_size\<close>, \<^verbatim>\<open>compute_brightness\<close>, \<^verbatim>\<open>acquisition_timeout\<close>) are left out.
\<close>

record NodeOptions =
  opt_serial_number :: "string option"
  opt_debug :: "ParameterValue option"
  opt_dump_node_map :: "bool option"
  opt_parameter_file :: "string option"

definition declare_parameter :: "'a option \<Rightarrow> 'a \<Rightarrow> 'a" where
  "declare_parameter override dflt = (case override of Some v \<Rightarrow> v | None \<Rightarrow> dflt)"

definition readParameters :: "NodeOptions \<Rightarrow> 'f CameraDriver \<Rightarrow> 'f CameraDriver" where
  "readParameters opts s =
     (let s1 = s\<lparr>serial :=
                  declare_parameter (opt_serial_number opts) ''missing_serial_number''\<rparr>;
          s2 = (case opt_debug opts of
                  None \<Rightarrow> s1\<lparr>debug := False\<rparr>
                | Some (BoolV b) \<Rightarrow> s1\<lparr>debug := b\<rparr>
                | Some v \<Rightarrow>
                    (LOG WARN [Txt ''bad debug param type: '', HostText] s1)\<lparr>debug := False\<rparr>);
          s3 = LOG INFO [Txt ''debug: '', Flag (debug s2)] s2;
          s4 = s3\<lparr>dumpNodeMap := declare_parameter (opt_dump_node_map opts) False,
                 parameterFile :=
                   declare_parameter (opt_parameter_file opts) ''parameters.cfg''\<rparr>
      in LOG INFO [Txt '' serial: '', Txt (serial s4)] s4)"

definition printCameraInfo :: "Driver \<Rightarrow> 'f CameraDriver \<Rightarrow> 'f CameraDriver" where
  "printCameraInfo d s =
     (if cameraRunning s
      then LOG INFO [Txt ''camera has pixel format: '', Txt (drv_getPixelFormat d)] s
      else s)"

text \<open>\<^verbatim>\<open>startCamera\<close>, called with the driver that \<^verbatim>\<open>driver_\<close> holds.\<close>

definition startCamera :: "Driver \<Rightarrow> 'f CameraDriver \<Rightarrow> 'f CameraDriver" where
  "startCamera d s =
     (if \<not> cameraRunning s then
        (let s1 = s\<lparr>cameraRunning := drv_startCamera d\<rparr> in
         if \<not> cameraRunning s1 then LOG ERROR [Txt ''failed to start camera!''] s1
         else printCameraInfo d s1)
      else s)"

text \<open>
  The discovery loop of \<^verbatim>\<open>start\<close>, over the retry numbers that are left;
  \<open>drv_getSerialNumbers d retry\<close> is the list that the device reports after the refresh
  of that retry.
\<close>

fun find_camera :: "Driver \<Rightarrow> nat list \<Rightarrow> 'f CameraDriver \<Rightarrow> bool \<times> 'f CameraDriver" where
  "find_camera d [] s = (False, s)"
| "find_camera d (retry # rs) s =
     (let camList = drv_getSerialNumbers d retry in
      if serial s \<notin> set camList then
        find_camera d rs
          (foldl (\<lambda>a cam. LOG WARN [Txt ''found cameras: '', Txt cam] a)
             (LOG WARN [Txt ''no camera found with serial: '', Txt (serial s),
                        Txt '' on try # '', Num (int retry)] s)
             camList)
      else (True, LOG INFO [Txt ''found camera with serial number: '', Txt (serial s)] s))"

text \<open>
  \<^verbatim>\<open>start\<close>. The publishers, the subscription and the quality-of-service profile are
  objects of the host and leave no trace in the record; \<open>d\<close> is the driver that
  \<^verbatim>\<open>std::make_shared\<close> creates.
\<close>

definition start ::
  "NodeOptions \<Rightarrow> (string \<Rightarrow> string list) \<Rightarrow> (string \<Rightarrow> string list option) \<Rightarrow> Driver
     \<Rightarrow> 'f CameraDriver \<Rightarrow> bool \<times> 'f CameraDriver" where
  "start opts tok fs d s0 =
     (case readParameterFile tok fs (readParameters opts s0) of
        (False, s2) \<Rightarrow> (False, s2)
      | (True, s2) \<Rightarrow>
          (let s3 = LOG INFO [Txt ''using spinnaker lib version: '',
                              Txt (drv_getLibraryVersion d)] (s2\<lparr>driver := Some d\<rparr>)
           in case find_camera d [1..<6] s3 of
                (False, s4) \<Rightarrow>
                  (False, LOG ERROR [Txt ''giving up, camera '', Txt (serial s4),
                                     Txt '' not found!''] s4)
              | (True, s4) \<Rightarrow>
                  (let s5 = s4\<lparr>keepRunning := True, thread := True\<rparr> in
                   if drv_initCamera d (serial s5) then
                     (let s6 = (if dumpNodeMap s5 then LOG INFO [Txt ''dumping node map!''] s5
                                else s5)
                      in (True, startCamera d (createCameraParameters s6)))
                   else
                     (True, LOG ERROR [Txt ''init camera failed for cam: '',
                                       Txt (serial s5)] s5))))"

text \<open>
  The constructor: \<open>Inl\<close> is the \<^verbatim>\<open>std::runtime_error\<close> it throws when \<^verbatim>\<open>start\<close> reports
  failure, \<open>Inr\<close> the node that came up; \<open>t\<close> is the time \<^verbatim>\<open>now()\<close>.
\<close>

definition CameraDriver_ctor ::
  "NodeOptions \<Rightarrow> (string \<Rightarrow> string list) \<Rightarrow> (string \<Rightarrow> string list option) \<Rightarrow> Driver
     \<Rightarrow> int \<Rightarrow> string + 'f CameraDriver" where
  "CameraDriver_ctor opts tok fs d t =
     (case start opts tok fs d (fresh\<lparr>lastStatusTime := t\<rparr>) of
        (False, s) \<Rightarrow> Inl ''startup of CameraDriver node failed!''
      | (True, s) \<Rightarrow> Inr s)"

text \<open>A device that accepts every setting and reports it back unchanged.\<close>

definition echo_driver :: Driver where
  "echo_driver = \<lparr>
     drv_setEnum = (\<lambda>h n v. Inr (''OK'', v)),
     drv_setDouble = (\<lambda>h n v. Inr (''OK'', v)),
     drv_setInt = (\<lambda>h n v. Inr (''OK'', v)),
     drv_setBool = (\<lambda>h n v. Inr (''OK'', v)),
     drv_getSerialNumbers = (\<lambda>retry. [''20435008'']),
     drv_initCamera = (\<lambda>sn. True),
     drv_startCamera = True,
     drv_getReceiveFrameRate = 30,
     drv_getPixelFormat = ''BayerRG8'',
     drv_getLibraryVersion = ''2.6.0.157''\<rparr>"

section \<open>Vocabulary of the properties\<close>

text \<open>
  The three reasons for which the loop of \<^verbatim>\<open>parameterChanged\<close> passes over a parameter:
  its name is not in the map, its value is not set, or there is no driver.
\<close>

definition skips :: "'f CameraDriver \<Rightarrow> Parameter \<Rightarrow> bool" where
  "skips s p =
     (parameterMap s (get_name p) = None \<or> get_type p = PARAMETER_NOT_SET \<or> driver s = None)"

text \<open>
  The kinds of line of a parameter file, by the tokens of the line: a blank line has no
  token, a comment has a first token that starts with \<^verbatim>\<open>#\<close>, a well-formed line has
  exactly three tokens and is no comment, and a malformed line has tokens, is no comment
  and has another number of tokens than three. \<open>line_entry\<close> is what a well-formed line
  asks to register, \<open>bad_line_warning\<close> the warning for a malformed line.
\<close>

definition blank_line :: "(string \<Rightarrow> string list) \<Rightarrow> string \<Rightarrow> bool" where
  "blank_line tok l = (tok l = [])"

definition comment_line :: "(string \<Rightarrow> string list) \<Rightarrow> string \<Rightarrow> bool" where
  "comment_line tok l = (tok l \<noteq> [] \<and> tok l ! 0 \<noteq> [] \<and> hd (tok l ! 0) = CHR ''#'')"

definition well_formed :: "(string \<Rightarrow> string list) \<Rightarrow> string \<Rightarrow> bool" where
  "well_formed tok l = (length (tok l) = 3 \<and> \<not> comment_line tok l)"

definition malformed :: "(string \<Rightarrow> string list) \<Rightarrow> string \<Rightarrow> bool" where
  "malformed tok l = (tok l \<noteq> [] \<and> \<not> comment_line tok l \<and> length (tok l) \<noteq> 3)"

definition line_entry :: "(string \<Rightarrow> string list) \<Rightarrow> string \<Rightarrow> string \<times> NodeInfo" where
  "line_entry tok l = (tok l ! 0, NodeInfo_ctor (tok l ! 2) (tok l ! 1))"

definition bad_line_warning :: "string \<Rightarrow> log_entry" where
  "bad_line_warning l = (WARN, [Txt ''skipping bad camera param line: '', Txt l])"

text \<open>
  A parameter file with a comment, a blank line, a line of one token and a quoted node
  name; a file that names \<^verbatim>\<open>gain\<close> twice; and a file system that holds both.
\<close>

definition demo_file :: "string list" where
  "demo_file =
     [''# name type node'',
      ''exposure_time float ExposureTime'',
      [],
      ''gain float Gain'',
      ''frame_rate'',
      [CHR ''t'', CHR ''m'', CHR '' '', CHR ''e'', CHR ''n'', CHR ''u'', CHR ''m'', CHR '' '',
       CHR 0x22, CHR ''T'', CHR '' '', CHR ''M'', CHR 0x22]]"

definition twice_file :: "string list" where
  "twice_file = [''gain float Gain'', ''gain float GainRaw'']"

definition demo_fs :: "string \<Rightarrow> string list option" where
  "demo_fs path =
     (if path = ''parameters.cfg'' then Some demo_file
      else if path = ''twice.cfg'' then Some twice_file
      else None)"

text \<open>
  What \<^verbatim>\<open>setDouble\<close> writes to the log for a request and the reply of the device (\<open>None\<close>
  when the device throws): the request, then a warning for a message other than \<^verbatim>\<open>OK\<close>,
  then a warning for a value out of tolerance.
\<close>

definition setDouble_log ::
  "string \<Rightarrow> double \<Rightarrow> (string \<times> double) option \<Rightarrow> log_entry list" where
  "setDouble_log n v reply =
     (INFO, [Txt ''setting '', Txt n, Txt '' to: '', Val v]) #
     (case reply of
        None \<Rightarrow> []
      | Some (msg, retV) \<Rightarrow>
          (if msg \<noteq> ''OK''
           then [(WARN, [Txt ''setting '', Txt n, Txt '' failed: '', Txt msg])] else []) @
          (if tolerance_exceeded v retV
           then [(WARN, [Txt n, Txt '' set to: '', Val retV, Txt '' instead of: '', Val v])]
           else []))"

text \<open>
  The conditions of \<^verbatim>\<open>controlCallback\<close> under which a field of a control command is due,
  and the device call that a due field makes when the registry knows its logical name.
\<close>

definition exposure_due :: "CameraControl \<Rightarrow> 'f CameraDriver \<Rightarrow> bool" where
  "exposure_due msg s =
     (exposure_time msg > 0 \<and> exposure_time msg \<noteq> currentExposureTime s)"

definition gain_due :: "CameraControl \<Rightarrow> 'f CameraDriver \<Rightarrow> bool" where
  "gain_due msg s = (gain msg > float_lowest \<and> gain msg \<noteq> currentGain s)"

definition field_call ::
  "(string \<rightharpoonup> NodeInfo) \<Rightarrow> string \<Rightarrow> bool \<Rightarrow> double \<Rightarrow> dev_call list" where
  "field_call m key due v =
     (case m key of
        Some ni \<Rightarrow> if due then [SetDouble (name ni) v] else []
      | None \<Rightarrow> [])"

definition exposure_call :: "CameraControl \<Rightarrow> 'f CameraDriver \<Rightarrow> dev_call list" where
  "exposure_call msg s =
     field_call (parameterMap s) ''exposure_time'' (exposure_due msg s)
       (Finite (real (unat (exposure_time msg))))"

definition gain_call :: "CameraControl \<Rightarrow> 'f CameraDriver \<Rightarrow> dev_call list" where
  "gain_call msg s =
     field_call (parameterMap s) ''gain'' (gain_due msg s) (Finite (gain msg))"

text \<open>
  Whether the device throws on the call that a field makes (no call, no exception), for
  the exposure at the history of the node, and for the gain at the history after the
  exposure call; the gain is not applied once the exposure has thrown.
\<close>

definition call_throws :: "Driver \<Rightarrow> dev_call list \<Rightarrow> dev_call list \<Rightarrow> bool" where
  "call_throws d h c =
     (case c of [SetDouble n v] \<Rightarrow> isl (drv_setDouble d h n v) | _ \<Rightarrow> False)"

definition exposure_throws :: "Driver \<Rightarrow> CameraControl \<Rightarrow> 'f CameraDriver \<Rightarrow> bool" where
  "exposure_throws d msg s = call_throws d (calls s) (exposure_call msg s)"

definition gain_throws :: "Driver \<Rightarrow> CameraControl \<Rightarrow> 'f CameraDriver \<Rightarrow> bool" where
  "gain_throws d msg s =
     (\<not> exposure_throws d msg s
      \<and> call_throws d (calls s @ exposure_call msg s) (gain_call msg s))"

text \<open>
  A configured node for concrete runs, and devices: one that throws when the node
  \<^verbatim>\<open>ExposureTime\<close> is set, one that throws when the node \<^verbatim>\<open>Gain\<close> is set, one that
  answers every \<^verbatim>\<open>setDouble\<close> with an error message and the value 0, and one that reads
  every \<^verbatim>\<open>double\<close> back as NaN.
\<close>

definition demo :: "nat CameraDriver" where
  "demo = fresh\<lparr>driver := Some echo_driver,
     parameterMap := [''exposure_time'' \<mapsto> NodeInfo_ctor ''ExposureTime'' ''float'',
                      ''gain'' \<mapsto> NodeInfo_ctor ''Gain'' ''float'',
                      ''trigger_mode'' \<mapsto> NodeInfo_ctor ''TriggerMode'' ''enum''],
     parameterList := [''exposure_time'', ''gain'', ''trigger_mode'']\<rparr>"

definition rejecting_driver :: Driver where
  "rejecting_driver = echo_driver\<lparr>drv_setDouble :=
     (\<lambda>h n v. if n = ''ExposureTime'' then Inl ''exposure rejected'' else Inr (''OK'', v))\<rparr>"

definition gain_rejecting_driver :: Driver where
  "gain_rejecting_driver = echo_driver\<lparr>drv_setDouble :=
     (\<lambda>h n v. if n = ''Gain'' then Inl ''gain rejected'' else Inr (''OK'', v))\<rparr>"

definition nan_driver :: Driver where
  "nan_driver = echo_driver\<lparr>drv_setDouble := (\<lambda>h n v. Inr (''OK'', NaN))\<rparr>"

definition deaf_driver :: Driver where
  "deaf_driver = echo_driver\<lparr>drv_setDouble := (\<lambda>h n v. Inr (''ERROR'', Finite 0))\<rparr>"

text \<open>
  The outcome of the discovery loop of \<^verbatim>\<open>start\<close>: some retry from 1 to 5 finds the serial
  number in the list that the device reports.
\<close>

definition camera_found :: "Driver \<Rightarrow> string \<Rightarrow> bool" where
  "camera_found d sn = list_ex (\<lambda>retry. sn \<in> set (drv_getSerialNumbers d retry)) [1, 2, 3, 4, 5]"

text \<open>
  Node options that name the camera of \<open>echo_driver\<close>; a device whose \<^verbatim>\<open>initCamera\<close>
  fails; a device that shows no camera; a device that shows the camera from the fifth
  refresh on.
\<close>

definition demo_opts :: NodeOptions where
  "demo_opts = \<lparr>opt_serial_number = Some ''20435008'', opt_debug = None,
                 opt_dump_node_map = None,
                 opt_parameter_file = None\<rparr>"

definition broken_driver :: Driver where
  "broken_driver = echo_driver\<lparr>drv_initCamera := (\<lambda>sn. False)\<rparr>"

definition absent_driver :: Driver where
  "absent_driver = echo_driver\<lparr>drv_getSerialNumbers := (\<lambda>retry. [])\<rparr>"

definition late_driver :: Driver where
  "late_driver = echo_driver\<lparr>drv_getSerialNumbers :=
     (\<lambda>retry. if retry < 5 then [''19370999''] else [''20435008''])\<rparr>"

section \<open>Properties of the double-precision arithmetic\<close>

lemma ulp_exponent_eq:
  assumes "2 powi e \<le> \<bar>x\<bar>" and "\<bar>x\<bar> < 2 powi (e + 1)" and "- 1022 \<le> e"
  shows "ulp_exponent x = e - 52"
proof -
  have "(0::real) < 2 powi e" by simp
  then have pos: "0 < \<bar>x\<bar>" using assms(1) by (rule less_le_trans)
  have lo: "2 powr real_of_int e \<le> \<bar>x\<bar>"
    using assms(1) by (simp add: powr_real_of_int')
  have "(2::real) powr real_of_int (e + 1) = 2 powi (e + 1)"
    by (rule powr_real_of_int') simp_all
  then have "\<bar>x\<bar> < 2 powr real_of_int (e + 1)"
    using assms(2) by simp
  then have hi: "\<bar>x\<bar> < 2 powr (real_of_int e + 1)" by simp
  have "\<lfloor>log 2 \<bar>x\<bar>\<rfloor> = e"
    using lo hi pos by (simp add: floor_log_eq_powr_iff)
  then show ?thesis using assms(3) by (simp add: ulp_exponent_def)
qed

text \<open>
  Rounding a number of the binade that starts at \<open>lo = 2 powi e\<close>, whose unit in the
  last place is \<open>u\<close>: the result is the integer nearest to the number counted in units,
  times the unit.
\<close>

lemma round_double_eq:
  assumes "lo = 2 powi e" and "u = 2 powi (e - 52)" and "- 1022 \<le> e"
    and "lo \<le> \<bar>x\<bar>" and "\<bar>x\<bar> < 2 * lo"
    and "round_even (x / u) = k"
    and "\<bar>of_int k * u\<bar> < 2 ^ 1024"
  shows "round_double x = Finite (of_int k * u)"
proof -
  have a: "2 powi e \<le> \<bar>x\<bar>" using assms(1,4) by simp
  have "(2::real) powi (e + 1) = 2 * 2 powi e" by (simp add: power_int_add)
  then have b: "\<bar>x\<bar> < 2 powi (e + 1)" using assms(1,5) by simp
  have "(0::real) < 2 powi e" by simp
  then have "0 < \<bar>x\<bar>" using a by (rule less_le_trans)
  then have "x \<noteq> 0" by simp
  then show ?thesis
    using ulp_exponent_eq [OF a b assms(3)] assms(2,6,7)
    by (simp add: round_double_def Let_def)
qed

lemma round_0025: "round_double (1 / 40) = Finite (3602879701896397 / 144115188075855872)"
proof -
  have "round_double (1 / 40) = Finite (of_int 7205759403792794 * (1 / 288230376151711744))"
    by (rule round_double_eq [where e = "- 6" and lo = "1 / 64"])
       (simp_all add: power_int_def power_one_over round_even_def)
  then show ?thesis by simp
qed

lemma round_1024: "round_double (512 / 5) = Finite (3602879701896397 / 35184372088832)"
proof -
  have "round_double (512 / 5) = Finite (of_int 7205759403792794 * (1 / 70368744177664))"
    by (rule round_double_eq [where e = "6" and lo = "64"])
       (simp_all add: power_int_def power_one_over round_even_def)
  then show ?thesis by simp
qed

lemma round_2: "round_double 2 = Finite 2"
proof -
  have "round_double 2 = Finite (of_int 4503599627370496 * (1 / 2251799813685248))"
    by (rule round_double_eq [where e = "1" and lo = "2"])
       (simp_all add: power_int_def power_one_over round_even_def)
  then show ?thesis by simp
qed

lemma round_diff_100_1024: "round_double (- (84442493013197 / 35184372088832)) = Finite (- (84442493013197 / 35184372088832))"
proof -
  have "round_double (- (84442493013197 / 35184372088832)) = Finite (of_int (- 5404319552844608) * (1 / 2251799813685248))"
    by (rule round_double_eq [where e = "1" and lo = "2"])
       (simp_all add: power_int_def power_one_over round_even_def)
  then show ?thesis by simp
qed

lemma round_sum_100_1024: "round_double (7121316910779597 / 35184372088832) = Finite (7121316910779597 / 35184372088832)"
proof -
  have "round_double (7121316910779597 / 35184372088832) = Finite (of_int 7121316910779597 * (1 / 35184372088832))"
    by (rule round_double_eq [where e = "7" and lo = "128"])
       (simp_all add: power_int_def power_one_over round_even_def)
  then show ?thesis by simp
qed

lemma round_tol_100_1024: "round_double (25657248148619365231132595412009 / 5070602400912917605986812821504) = Finite (2848526764311839 / 562949953421312)"
proof -
  have "round_double (25657248148619365231132595412009 / 5070602400912917605986812821504) = Finite (of_int 5697053528623678 * (1 / 1125899906842624))"
    by (rule round_double_eq [where e = "2" and lo = "4"])
       (simp_all add: power_int_def power_one_over round_even_def)
  then show ?thesis by simp
qed

lemma round_diff_100_110: "round_double (- 10) = Finite (- 10)"
proof -
  have "round_double (- 10) = Finite (of_int (- 5629499534213120) * (1 / 562949953421312))"
    by (rule round_double_eq [where e = "3" and lo = "8"])
       (simp_all add: power_int_def power_one_over round_even_def)
  then show ?thesis by simp
qed

lemma round_sum_100_110: "round_double 210 = Finite 210"
proof -
  have "round_double 210 = Finite (of_int 7388718138654720 * (1 / 35184372088832))"
    by (rule round_double_eq [where e = "7" and lo = "128"])
       (simp_all add: power_int_def power_one_over round_even_def)
  then show ?thesis by simp
qed

lemma round_tol_100_110: "round_double (378302368699121685 / 72057594037927936) = Finite (21 / 4)"
proof -
  have "round_double (378302368699121685 / 72057594037927936) = Finite (of_int 5910974510923776 * (1 / 1125899906842624))"
    by (rule round_double_eq [where e = "2" and lo = "4"])
       (simp_all add: power_int_def power_one_over round_even_def)
  then show ?thesis by simp
qed

lemma round_diff_19: "round_double (- (274257669615511 / 281474976710656)) = Finite (- (274257669615511 / 281474976710656))"
proof -
  have "round_double (- (274257669615511 / 281474976710656)) = Finite (of_int (- 8776245427696352) * (1 / 9007199254740992))"
    by (rule round_double_eq [where e = "- 1" and lo = "1 / 2"])
       (simp_all add: power_int_def power_one_over round_even_def)
  then show ?thesis by simp
qed

lemma round_sum_19: "round_double (10970306784620439 / 281474976710656) = Finite (1371288348077555 / 35184372088832)"
proof -
  have "round_double (10970306784620439 / 281474976710656) = Finite (of_int 5485153392310220 * (1 / 140737488355328))"
    by (rule round_double_eq [where e = "5" and lo = "32"])
       (simp_all add: power_int_def power_one_over round_even_def)
  then show ?thesis by simp
qed

lemma round_tol_19: "round_double (4940586954735664044562731069335 / 5070602400912917605986812821504) = Finite (274257669615511 / 281474976710656)"
proof -
  have "round_double (4940586954735664044562731069335 / 5070602400912917605986812821504) = Finite (of_int 8776245427696352 * (1 / 9007199254740992))"
    by (rule round_double_eq [where e = "- 1" and lo = "1 / 2"])
       (simp_all add: power_int_def power_one_over round_even_def)
  then show ?thesis by simp
qed


lemma round_even_nonneg: "0 \<le> m \<Longrightarrow> 0 \<le> round_even m"
  by (auto simp: round_even_def Let_def)

lemma round_double_nonneg:
  assumes "0 \<le> x"
  shows "round_double x = PosInf \<or> (\<exists>y\<ge>0. round_double x = Finite y)"
proof (cases "x = 0")
  case True
  then show ?thesis by (simp add: round_double_def)
next
  case False
  let ?u = "(2::real) powi ulp_exponent x"
  have u: "0 < ?u" by simp
  then have "0 \<le> x / ?u" using assms by simp
  then have "0 \<le> round_even (x / ?u)" by (rule round_even_nonneg)
  then have "0 \<le> of_int (round_even (x / ?u)) * ?u" using u by simp
  then show ?thesis using False assms by (auto simp: round_double_def Let_def)
qed

lemma round_double_not_NaN: "round_double x \<noteq> NaN"
  by (simp add: round_double_def Let_def)

text \<open>Apart from NaN, \<^verbatim>\<open>!(a > b)\<close> is \<^verbatim>\<open>a <= b\<close>.\<close>

lemma not_dgt_dle: "a \<noteq> NaN \<Longrightarrow> b \<noteq> NaN \<Longrightarrow> (\<not> dgt a b) = dle a b"
  by (cases a; cases b) auto

lemma dle_NaN: "\<not> dle NaN b" "\<not> dle a NaN"
proof -
  show "\<not> dle NaN b" by simp
  show "\<not> dle a NaN" by (cases a) simp_all
qed

lemma tolerance_NaN: "\<not> tolerance_exceeded NaN r" "\<not> tolerance_exceeded v NaN"
proof -
  show "\<not> tolerance_exceeded NaN r" by (simp add: tolerance_exceeded_def dsub_def)
  have "dsub v NaN = NaN" by (cases v) (simp_all add: dsub_def)
  then show "\<not> tolerance_exceeded v NaN" by (simp add: tolerance_exceeded_def)
qed

text \<open>A value that is read back as it was requested is within the tolerance.\<close>

lemma tolerance_echo: "\<not> tolerance_exceeded (Finite x) (Finite x)"
proof -
  have d: "dabs (dsub (Finite x) (Finite x)) = Finite 0"
    by (simp add: dsub_def round_double_def)
  have "dabs (dadd (Finite x) (Finite x)) = PosInf
      \<or> (\<exists>y\<ge>0. dabs (dadd (Finite x) (Finite x)) = Finite y)"
    using round_double_not_NaN [of "x + x"] by (cases "round_double (x + x)") auto
  then have "dmul (round_double (25 / 1000)) (dabs (dadd (Finite x) (Finite x))) = PosInf
      \<or> (\<exists>z\<ge>0. dmul (round_double (25 / 1000)) (dabs (dadd (Finite x) (Finite x))) = Finite z)"
  proof
    assume "dabs (dadd (Finite x) (Finite x)) = PosInf"
    then show ?thesis by (simp add: round_0025)
  next
    assume "\<exists>y\<ge>0. dabs (dadd (Finite x) (Finite x)) = Finite y"
    then obtain y where y: "0 \<le> y" "dabs (dadd (Finite x) (Finite x)) = Finite y" by blast
    have "0 \<le> 3602879701896397 / 144115188075855872 * y" using y(1) by simp
    from round_double_nonneg [OF this] show ?thesis
      using y(2) by (simp add: round_0025)
  qed
  then show ?thesis unfolding tolerance_exceeded_def d by auto
qed

lemma tolerance_100_1024: "\<not> tolerance_exceeded (Finite 100) (round_double (1024 / 10))"
  by (simp add: tolerance_exceeded_def dsub_def round_0025 round_1024 round_diff_100_1024
      round_sum_100_1024 round_tol_100_1024)

lemma tolerance_100_110: "tolerance_exceeded (Finite 100) (Finite 110)"
  by (simp add: tolerance_exceeded_def dsub_def round_0025 round_diff_100_110
      round_sum_100_110 round_tol_100_110)

lemma tolerance_19:
  "\<not> tolerance_exceeded (Finite 19) (Finite (5622282227117975 / 281474976710656))"
  by (simp add: tolerance_exceeded_def dsub_def round_0025 round_diff_19
      round_sum_19 round_tol_19)

section \<open>Properties of the frame queue\<close>

lemma queue_step_bounded:
  "length (imageQueue s) \<le> 2 \<Longrightarrow> length (imageQueue (queue_step x s)) \<le> 2"
  by (cases x) (auto simp: publishImage_def run_locked_section_def)

lemma queue_exec_bounded:
  "length (imageQueue s) \<le> 2 \<Longrightarrow> length (imageQueue (queue_exec xs s)) \<le> 2"
proof (induction xs arbitrary: s)
  case Nil
  then show ?case by simp
next
  case (Cons x xs)
  from Cons.prems have "length (imageQueue (queue_step x s)) \<le> 2"
    by (rule queue_step_bounded)
  then show ?case using Cons.IH by simp
qed

text \<open>
  Claim C4. Starting from a queue of at most two frames, the queue holds at most two
  frames after every prefix of every sequence of pushes and pops; a push onto a queue of
  two frames leaves the queue as it is, so the frame lost is the incoming one, and adds
  one to the drop counter. The push is a total function of the state: it has no wait.
\<close>

theorem queue_bounded_drop:
  assumes "length (imageQueue s) \<le> 2"
  shows "(\<forall>k. length (imageQueue (queue_exec (take k xs) s)) \<le> 2)
       \<and> (length (imageQueue s) = 2 \<longrightarrow>
            imageQueue (publishImage im s) = imageQueue s
          \<and> droppedCount (publishImage im s) = droppedCount s + 1
          \<and> publishImage im s = s\<lparr>droppedCount := droppedCount s + 1\<rparr>)"
  using assms by (simp add: queue_exec_bounded publishImage_def)

theorem queue_bounded_drop_witness:
  "length (imageQueue (queue_exec [Push (1::nat), Push 2, Pop, Push 3, Push 4, Push 5] fresh)) \<le> 2
   \<and> imageQueue (publishImage (3::nat) (queue_exec [Push 1, Push 2] fresh)) = [1, 2]
   \<and> droppedCount (publishImage (3::nat) (queue_exec [Push 1, Push 2] fresh)) = 1"
proof -
  have two: "length (imageQueue (queue_exec [Push (1::nat), Push 2] fresh)) = 2"
    by (simp add: publishImage_def fresh_def)
  have q: "imageQueue (queue_exec [Push (1::nat), Push 2] fresh) = [1, 2]"
    by (simp add: publishImage_def fresh_def)
  have d: "droppedCount (queue_exec [Push (1::nat), Push 2] fresh) = 0"
    by (simp add: publishImage_def fresh_def)
  have zero: "length (imageQueue (fresh :: nat CameraDriver)) \<le> 2"
    by (simp add: fresh_def)
  from queue_bounded_drop [OF zero, of "[Push 1, Push 2, Pop, Push 3, Push 4, Push 5]" 3]
  have a: "\<forall>k. length (imageQueue (queue_exec
      (take k [Push (1::nat), Push 2, Pop, Push 3, Push 4, Push 5]) fresh)) \<le> 2"
    by blast
  from a [rule_format, of 6]
  have a6: "length (imageQueue (queue_exec
      [Push (1::nat), Push 2, Pop, Push 3, Push 4, Push 5] fresh)) \<le> 2"
    by simp
  from two have le: "length (imageQueue (queue_exec [Push (1::nat), Push 2] fresh)) \<le> 2"
    by simp
  from queue_bounded_drop [OF le, of "[]" 3] two q d
  show ?thesis using a6 by simp
qed

lemma queue_step_sorted:
  fixes s :: "('f::linorder) CameraDriver"
  assumes "sorted_wrt (<) (imageQueue s @ pushed (x # xs))"
  shows "sorted_wrt (<) (imageQueue (queue_step x s) @ pushed xs)"
proof (cases x)
  case (Push im)
  then show ?thesis using assms
    by (auto simp: publishImage_def sorted_wrt_append)
next
  case Pop
  show ?thesis
  proof (cases "imageQueue s" rule: rev_cases)
    case Nil
    then show ?thesis using assms Pop by (simp add: run_locked_section_def)
  next
    case (snoc ys y)
    then show ?thesis using assms Pop
      by (auto simp: run_locked_section_def sorted_wrt_append)
  qed
qed

lemma queue_exec_sorted:
  fixes s :: "('f::linorder) CameraDriver"
  shows "sorted_wrt (<) (imageQueue s @ pushed xs) \<Longrightarrow>
    sorted_wrt (<) (imageQueue (queue_exec xs s))"
proof (induction xs arbitrary: s)
  case Nil
  then show ?case by simp
next
  case (Cons x xs)
  from Cons.prems have "sorted_wrt (<) (imageQueue (queue_step x s) @ pushed xs)"
    by (rule queue_step_sorted)
  then show ?case using Cons.IH by simp
qed

lemma sorted_last_greatest:
  fixes q :: "('f::linorder) list"
  assumes "sorted_wrt (<) q" and "g \<in> set q"
  shows "g \<le> last q"
  using assms
proof (induction q rule: rev_induct)
  case Nil
  then show ?case by simp
next
  case (snoc x xs)
  then show ?case by (auto simp: sorted_wrt_append)
qed

lemma sorted_last_not_in_butlast:
  fixes q :: "('f::linorder) list"
  assumes "sorted_wrt (<) q" and "q \<noteq> []"
  shows "last q \<notin> set (butlast q)"
  using assms
proof (induction q rule: rev_induct)
  case Nil
  then show ?case by simp
next
  case (snoc x xs)
  then show ?case by (auto simp: sorted_wrt_append)
qed

text \<open>
  Claim C5. Frames are compared by the order in which the device delivers them. When the
  pushes of a run arrive in that order and the queue is not empty after the run, the
  locked section of the consumer removes and returns a frame of the queue that no frame
  of the queue is newer than; the frames that stay are the older ones. Pushing
  \<open>F1\<close>, \<open>F2\<close>, \<open>F3\<close> into the empty queue leaves \<open>[F1, F2]\<close> and one drop more, and
  the consumer then takes \<open>F2\<close>.
\<close>

theorem newest_first:
  fixes s0 :: "('f::linorder) CameraDriver"
  assumes "imageQueue s0 = []"
    and "sorted_wrt (<) (pushed xs)"
    and "imageQueue (queue_exec xs s0) \<noteq> []"
  shows "(\<exists>f s'. run_locked_section (queue_exec xs s0) = (Some f, s')
           \<and> f \<in> set (imageQueue (queue_exec xs s0))
           \<and> (\<forall>g \<in> set (imageQueue (queue_exec xs s0)). g \<le> f)
           \<and> f \<notin> set (imageQueue s')
           \<and> imageQueue (queue_exec xs s0) = imageQueue s' @ [f])
       \<and> imageQueue (queue_exec [Push F1, Push F2, Push F3] s0) = [F1, F2]
       \<and> droppedCount (queue_exec [Push F1, Push F2, Push F3] s0) = droppedCount s0 + 1
       \<and> fst (run_locked_section (queue_exec [Push F1, Push F2, Push F3] s0)) = Some F2"
proof -
  let ?q = "imageQueue (queue_exec xs s0)"
  have srt: "sorted_wrt (<) ?q"
    using assms(1,2) by (intro queue_exec_sorted) simp
  have "run_locked_section (queue_exec xs s0)
      = (Some (last ?q), (queue_exec xs s0)\<lparr>imageQueue := butlast ?q\<rparr>)"
    using assms(3) by (simp add: run_locked_section_def)
  moreover have "last ?q \<in> set ?q" using assms(3) by simp
  moreover have "\<forall>g \<in> set ?q. g \<le> last ?q"
    using srt by (auto intro: sorted_last_greatest)
  moreover have "last ?q \<notin> set (butlast ?q)"
    using srt assms(3) by (rule sorted_last_not_in_butlast)
  moreover have "?q = butlast ?q @ [last ?q]" using assms(3) by simp
  ultimately have general: "\<exists>f s'. run_locked_section (queue_exec xs s0) = (Some f, s')
           \<and> f \<in> set ?q \<and> (\<forall>g \<in> set ?q. g \<le> f) \<and> f \<notin> set (imageQueue s')
           \<and> ?q = imageQueue s' @ [f]"
    by simp
  have q3: "imageQueue (queue_exec [Push F1, Push F2, Push F3] s0) = [F1, F2]"
    using assms(1) by (simp add: publishImage_def)
  have d3: "droppedCount (queue_exec [Push F1, Push F2, Push F3] s0) = droppedCount s0 + 1"
    using assms(1) by (simp add: publishImage_def)
  have p3: "fst (run_locked_section (queue_exec [Push F1, Push F2, Push F3] s0)) = Some F2"
    using assms(1) by (simp add: publishImage_def run_locked_section_def)
  from general q3 d3 p3 show ?thesis by blast
qed

theorem newest_first_witness:
  "imageQueue (fresh :: nat CameraDriver) = []
   \<and> sorted_wrt (<) (pushed [Push (1::nat), Push 2, Push 3, Pop, Push 4])
   \<and> imageQueue (queue_exec [Push (1::nat), Push 2, Push 3, Pop, Push 4] fresh) = [1, 4]
   \<and> fst (run_locked_section (queue_exec [Push (1::nat), Push 2, Push 3, Pop, Push 4] fresh))
       = Some 4
   \<and> (\<exists>f s'. run_locked_section (queue_exec [Push (1::nat), Push 2, Push 3, Pop, Push 4] fresh)
         = (Some f, s') \<and> f \<notin> set (imageQueue s'))"
proof -
  let ?xs = "[Push (1::nat), Push 2, Push 3, Pop, Push 4]"
  have h1: "imageQueue (fresh :: nat CameraDriver) = []" by (simp add: fresh_def)
  have h2: "sorted_wrt (<) (pushed ?xs)" by simp
  have q: "imageQueue (queue_exec ?xs fresh) = [1, 4]"
    by (simp add: publishImage_def run_locked_section_def fresh_def)
  then have h3: "imageQueue (queue_exec ?xs fresh) \<noteq> []" by simp
  have p: "fst (run_locked_section (queue_exec ?xs fresh)) = Some 4"
    using q by (simp add: run_locked_section_def)
  from newest_first [OF h1 h2 h3]
  have "\<exists>f s'. run_locked_section (queue_exec ?xs fresh) = (Some f, s')
          \<and> f \<notin> set (imageQueue s')"
    by blast
  with h1 h2 q p show ?thesis by blast
qed

text \<open>
  Claim C6, as the code has it. With a driver in place, \<^verbatim>\<open>setDouble\<close> reports success
  exactly when the device returns, its message is \<^verbatim>\<open>OK\<close>, and the test
  \<^verbatim>\<open>|v - retV| > 0.025 * |v + retV|\<close>, evaluated in double arithmetic, is false. When
  neither side of the test is NaN that is the comparison \<^verbatim>\<open><=\<close> of the two rounded sides;
  when the request or the value read back is NaN the test is false and only the message
  decides. A request of 100 read back as 102.4 succeeds; read back as 110 it fails.
\<close>

theorem setDouble_tolerance:
  assumes "driver s = Some d"
  shows "(fst (setDouble nodeName v s) = Inr True \<longleftrightarrow>
            (\<exists>retV. drv_setDouble d (calls s) nodeName v = Inr (''OK'', retV)
                   \<and> \<not> tolerance_exceeded v retV))
       \<and> (\<forall>msg retV. drv_setDouble d (calls s) nodeName v = Inr (msg, retV) \<longrightarrow>
            fst (setDouble nodeName v s)
              = Inr (msg = ''OK'' \<and> \<not> tolerance_exceeded v retV))
       \<and> (\<forall>retV. dabs (dsub v retV) \<noteq> NaN
              \<and> dmul (round_double (25 / 1000)) (dabs (dadd v retV)) \<noteq> NaN \<longrightarrow>
            (\<not> tolerance_exceeded v retV)
              = dle (dabs (dsub v retV))
                    (dmul (round_double (25 / 1000)) (dabs (dadd v retV))))
       \<and> (\<forall>retV. v = NaN \<or> retV = NaN \<longrightarrow> \<not> tolerance_exceeded v retV)
       \<and> (drv_setDouble d (calls s) nodeName (Finite 100)
            = Inr (''OK'', round_double (1024 / 10)) \<longrightarrow>
            fst (setDouble nodeName (Finite 100) s) = Inr True)
       \<and> (drv_setDouble d (calls s) nodeName (Finite 100) = Inr (''OK'', Finite 110) \<longrightarrow>
            fst (setDouble nodeName (Finite 100) s) = Inr False)"
proof -
  have ret: "fst (setDouble nodeName w s)
           = Inr (msg = ''OK'' \<and> \<not> tolerance_exceeded w retV)"
    if "drv_setDouble d (calls s) nodeName w = Inr (msg, retV)" for w msg retV
    using assms that by (simp add: setDouble_def LOG_def Let_def)
  have thr: "fst (setDouble nodeName v s) = Inl (DriverException what)"
    if "drv_setDouble d (calls s) nodeName v = Inl what" for what
    using assms that by (simp add: setDouble_def LOG_def Let_def)
  have iff: "fst (setDouble nodeName v s) = Inr True \<longleftrightarrow>
            (\<exists>retV. drv_setDouble d (calls s) nodeName v = Inr (''OK'', retV)
                   \<and> \<not> tolerance_exceeded v retV)"
  proof (cases "drv_setDouble d (calls s) nodeName v")
    case (Inl what)
    then show ?thesis using thr [OF Inl] by simp
  next
    case (Inr r)
    obtain msg retV where r: "r = (msg, retV)" by (cases r)
    with Inr ret [of v msg retV] show ?thesis by auto
  qed
  have le: "(\<not> tolerance_exceeded v retV)
              = dle (dabs (dsub v retV))
                    (dmul (round_double (25 / 1000)) (dabs (dadd v retV)))"
    if "dabs (dsub v retV) \<noteq> NaN"
      "dmul (round_double (25 / 1000)) (dabs (dadd v retV)) \<noteq> NaN" for retV
    unfolding tolerance_exceeded_def by (rule not_dgt_dle [OF that])
  have nan: "\<not> tolerance_exceeded v retV" if "v = NaN \<or> retV = NaN" for retV
    using that tolerance_NaN by auto
  have ex1: "fst (setDouble nodeName (Finite 100) s) = Inr True"
    if "drv_setDouble d (calls s) nodeName (Finite 100)
          = Inr (''OK'', round_double (1024 / 10))"
    using ret [OF that] tolerance_100_1024 by simp
  have ex2: "fst (setDouble nodeName (Finite 100) s) = Inr False"
    if "drv_setDouble d (calls s) nodeName (Finite 100) = Inr (''OK'', Finite 110)"
    using ret [OF that] tolerance_100_110 by simp
  from iff ret le nan ex1 ex2 show ?thesis by blast
qed

text \<open>
  The claim as stated fails on a NaN read back: the apply reports success, while
  \<^verbatim>\<open>|v - retV| <= 0.025 * |v + retV|\<close> is false. It fails on the exact numbers as well:
  for the request 19 and the value \<^verbatim>\<open>0x1.3f96f96f96f97p+4\<close> read back the apply reports
  success, the two rounded sides being equal, while the exact difference is greater
  than the exact bound.
\<close>

theorem setDouble_tolerance_counterexample:
  "fst (setDouble ''Gain'' (Finite 100)
     ((fresh :: nat CameraDriver)\<lparr>driver := Some nan_driver\<rparr>)) = Inr True
   \<and> drv_setDouble nan_driver [] ''Gain'' (Finite 100) = Inr (''OK'', NaN)
   \<and> \<not> dle (dabs (dsub (Finite 100) NaN))
            (dmul (round_double (25 / 1000)) (dabs (dadd (Finite 100) NaN)))
   \<and> fst (setDouble ''Gain'' (Finite 19)
       ((fresh :: nat CameraDriver)\<lparr>driver := Some (echo_driver\<lparr>drv_setDouble :=
          \<lambda>h n v. Inr (''OK'', Finite (5622282227117975 / 281474976710656))\<rparr>)\<rparr>)) = Inr True
   \<and> \<not> \<bar>19 - 5622282227117975 / 281474976710656\<bar>
          \<le> (0.025 :: real) * \<bar>19 + 5622282227117975 / 281474976710656\<bar>"
proof -
  have a: "fst (setDouble ''Gain'' (Finite 100)
     ((fresh :: nat CameraDriver)\<lparr>driver := Some nan_driver\<rparr>)) = Inr True"
    by (simp add: setDouble_def LOG_def Let_def nan_driver_def tolerance_NaN)
  have b: "drv_setDouble nan_driver [] ''Gain'' (Finite 100) = Inr (''OK'', NaN)"
    by (simp add: nan_driver_def)
  have c: "\<not> dle (dabs (dsub (Finite 100) NaN))
            (dmul (round_double (25 / 1000)) (dabs (dadd (Finite 100) NaN)))"
    by (simp add: dsub_def)
  have d: "fst (setDouble ''Gain'' (Finite 19)
       ((fresh :: nat CameraDriver)\<lparr>driver := Some (echo_driver\<lparr>drv_setDouble :=
          \<lambda>h n v. Inr (''OK'', Finite (5622282227117975 / 281474976710656))\<rparr>)\<rparr>)) = Inr True"
    by (simp add: setDouble_def LOG_def Let_def tolerance_19)
  have e: "\<not> \<bar>19 - 5622282227117975 / 281474976710656\<bar>
          \<le> (0.025 :: real) * \<bar>19 + 5622282227117975 / 281474976710656\<bar>"
    by simp
  from a b c d e show ?thesis by blast
qed

theorem setDouble_tolerance_witness:
  "fst (setDouble ''Gain'' (Finite 100)
     ((fresh :: nat CameraDriver)\<lparr>driver :=
        Some (echo_driver\<lparr>drv_setDouble :=
          \<lambda>h n v. Inr (''OK'', round_double (1024 / 10))\<rparr>)\<rparr>)) = Inr True
   \<and> fst (setDouble ''Gain'' (Finite 100)
     ((fresh :: nat CameraDriver)\<lparr>driver :=
        Some (echo_driver\<lparr>drv_setDouble := \<lambda>h n v. Inr (''OK'', Finite 110)\<rparr>)\<rparr>)) = Inr False
   \<and> fst (setDouble ''Gain'' (Finite 100)
     ((fresh :: nat CameraDriver)\<lparr>driver := Some nan_driver\<rparr>)) = Inr True
   \<and> dabs (dsub (Finite 100) (Finite 110)) \<noteq> NaN
   \<and> dmul (round_double (25 / 1000)) (dabs (dadd (Finite 100) (Finite 110))) \<noteq> NaN
   \<and> \<not> dle (dabs (dsub (Finite 100) (Finite 110)))
            (dmul (round_double (25 / 1000)) (dabs (dadd (Finite 100) (Finite 110))))"
proof -
  let ?d1 = "echo_driver\<lparr>drv_setDouble := \<lambda>h n v. Inr (''OK'', round_double (1024 / 10))\<rparr>"
  let ?d2 = "echo_driver\<lparr>drv_setDouble := \<lambda>h n v. Inr (''OK'', Finite 110)\<rparr>"
  let ?s1 = "(fresh :: nat CameraDriver)\<lparr>driver := Some ?d1\<rparr>"
  let ?s2 = "(fresh :: nat CameraDriver)\<lparr>driver := Some ?d2\<rparr>"
  let ?s3 = "(fresh :: nat CameraDriver)\<lparr>driver := Some nan_driver\<rparr>"
  have a1: "driver ?s1 = Some ?d1" by simp
  have a2: "driver ?s2 = Some ?d2" by simp
  have a3: "driver ?s3 = Some nan_driver" by simp
  have r1: "drv_setDouble ?d1 (calls ?s1) ''Gain'' (Finite 100)
      = Inr (''OK'', round_double (1024 / 10))"
    by simp
  have r2: "drv_setDouble ?d2 (calls ?s2) ''Gain'' (Finite 100) = Inr (''OK'', Finite 110)"
    by simp
  have r3: "drv_setDouble nan_driver (calls ?s3) ''Gain'' (Finite 100) = Inr (''OK'', NaN)"
    by (simp add: nan_driver_def)
  have n1: "dabs (dsub (Finite 100) (Finite 110)) \<noteq> NaN"
    by (simp add: dsub_def round_diff_100_110)
  have n2: "dmul (round_double (25 / 1000)) (dabs (dadd (Finite 100) (Finite 110))) \<noteq> NaN"
    by (simp add: round_0025 round_sum_100_110 round_double_not_NaN)
  from setDouble_tolerance [OF a1, of "''Gain''" "Finite 100"] r1
  have t1: "fst (setDouble ''Gain'' (Finite 100) ?s1) = Inr True" by blast
  from setDouble_tolerance [OF a2, of "''Gain''" "Finite 100"] r2
  have t2: "fst (setDouble ''Gain'' (Finite 100) ?s2) = Inr False" by blast
  from setDouble_tolerance [OF a3, of "''Gain''" "Finite 100"]
  have t3a: "\<not> tolerance_exceeded (Finite 100) NaN" by blast
  from setDouble_tolerance [OF a3, of "''Gain''" "Finite 100"] r3
  have "fst (setDouble ''Gain'' (Finite 100) ?s3)
      = Inr (''OK'' = ''OK'' \<and> \<not> tolerance_exceeded (Finite 100) NaN)"
    by blast
  with t3a have t3: "fst (setDouble ''Gain'' (Finite 100) ?s3) = Inr True" by simp
  from setDouble_tolerance [OF a2, of "''Gain''" "Finite 100"] n1 n2
  have "(\<not> tolerance_exceeded (Finite 100) (Finite 110))
      = dle (dabs (dsub (Finite 100) (Finite 110)))
            (dmul (round_double (25 / 1000)) (dabs (dadd (Finite 100) (Finite 110))))"
    by blast
  with tolerance_100_110
  have t4: "\<not> dle (dabs (dsub (Finite 100) (Finite 110)))
            (dmul (round_double (25 / 1000)) (dabs (dadd (Finite 100) (Finite 110))))"
    by simp
  from t1 t2 t3 n1 n2 t4 show ?thesis by blast
qed



section \<open>Properties of the setting applier\<close>

lemma setEnum_frame:
  "driver (snd (setEnum n v s)) = driver s
   \<and> parameterMap (snd (setEnum n v s)) = parameterMap s"
  by (simp add: setEnum_def LOG_def Let_def split: option.splits sum.splits prod.splits)

lemma setDouble_frame:
  "driver (snd (setDouble n v s)) = driver s
   \<and> parameterMap (snd (setDouble n v s)) = parameterMap s"
  by (simp add: setDouble_def LOG_def Let_def split: option.splits sum.splits prod.splits)

lemma setInt_frame:
  "driver (snd (setInt n v s)) = driver s
   \<and> parameterMap (snd (setInt n v s)) = parameterMap s"
  by (simp add: setInt_def LOG_def Let_def split: option.splits sum.splits prod.splits)

lemma setBool_frame:
  "driver (snd (setBool n v s)) = driver s
   \<and> parameterMap (snd (setBool n v s)) = parameterMap s"
  by (simp add: setBool_def LOG_def Let_def split: option.splits sum.splits prod.splits)

lemma setEnum_no_null: "driver s \<noteq> None \<Longrightarrow> fst (setEnum n v s) \<noteq> Inl NullDriver"
  by (auto simp: setEnum_def LOG_def Let_def split: option.splits sum.splits prod.splits)

lemma setDouble_no_null: "driver s \<noteq> None \<Longrightarrow> fst (setDouble n v s) \<noteq> Inl NullDriver"
  by (auto simp: setDouble_def LOG_def Let_def split: option.splits sum.splits prod.splits)

lemma setInt_no_null: "driver s \<noteq> None \<Longrightarrow> fst (setInt n v s) \<noteq> Inl NullDriver"
  by (auto simp: setInt_def LOG_def Let_def split: option.splits sum.splits prod.splits)

lemma setBool_no_null: "driver s \<noteq> None \<Longrightarrow> fst (setBool n v s) \<noteq> Inl NullDriver"
  by (auto simp: setBool_def LOG_def Let_def split: option.splits sum.splits prod.splits)

lemma discard_fst: "fst (discard r) = Inl e \<longleftrightarrow> fst r = Inl e"
  by (cases r) (auto simp: discard_def split: sum.splits)

lemma discard_snd: "snd (discard r) = snd r"
  by (cases r) (auto simp: discard_def split: sum.splits)

lemma setParameter_frame:
  "driver (snd (setParameter ni p s)) = driver s
   \<and> parameterMap (snd (setParameter ni p s)) = parameterMap s"
  by (cases "type ni")
    (simp_all add: setParameter_def discard_snd setEnum_frame setDouble_frame setInt_frame
      setBool_frame LOG_def Let_def)

lemma setParameter_no_null:
  "driver s \<noteq> None \<Longrightarrow> fst (setParameter ni p s) \<noteq> Inl NullDriver"
  by (cases "type ni")
    (simp_all add: setParameter_def discard_fst setEnum_no_null setDouble_no_null
      setInt_no_null setBool_no_null Let_def)

lemma parameterChanged_loop_returns: "fst (parameterChanged_loop ps s) = None"
proof (induction ps arbitrary: s)
  case Nil
  then show ?case by simp
next
  case (Cons p ps)
  show ?case
  proof (cases "parameterMap s (get_name p)")
    case None
    then show ?thesis using Cons.IH by simp
  next
    case (Some ni)
    show ?thesis
    proof (cases "driver s = None \<or> get_type p = PARAMETER_NOT_SET")
      case True
      then show ?thesis using Some Cons.IH by auto
    next
      case False
      then have drv: "driver s \<noteq> None" by simp
      obtain r s' where r: "setParameter ni p s = (r, s')" by (cases "setParameter ni p s")
      from setParameter_no_null [OF drv, of ni p] r have "r \<noteq> Inl NullDriver" by simp
      then show ?thesis using Some False r Cons.IH
        by (cases r) (auto split: exn.splits)
    qed
  qed
qed

text \<open>
  Claim C9. Whatever the batch and whatever the device does, the handler returns, and
  the result it returns is the successful one: a setting whose value is not confirmed
  and a setting for which the device throws leave the acknowledgment as it is.
\<close>

theorem parameterChanged_acknowledges:
  "fst (parameterChanged params s) = Inr \<lparr>successful = True, reason = ''all good!''\<rparr>"
proof -
  obtain r s' where r: "parameterChanged_loop params s = (r, s')"
    by (cases "parameterChanged_loop params s")
  with parameterChanged_loop_returns [of params s] have "r = None" by simp
  with r show ?thesis by (simp add: parameterChanged_def)
qed

lemma skips_frame:
  "driver s' = driver s \<Longrightarrow> parameterMap s' = parameterMap s \<Longrightarrow> skips s' = skips s"
  by (rule ext) (simp add: skips_def)

lemma parameterChanged_loop_filter:
  "driver s \<noteq> None \<Longrightarrow>
   parameterChanged_loop ps s = parameterChanged_loop (filter (\<lambda>p. \<not> skips s p) ps) s"
proof (induction ps arbitrary: s)
  case Nil
  then show ?case by simp
next
  case (Cons p ps)
  from Cons.prems obtain d where d: "driver s = Some d" by auto
  show ?case
  proof (cases "skips s p")
    case True
    then have "parameterChanged_loop (p # ps) s = parameterChanged_loop ps s"
      using d by (auto simp: skips_def split: option.splits)
    then show ?thesis using True Cons.IH [OF Cons.prems] by simp
  next
    case False
    then obtain ni where ni: "parameterMap s (get_name p) = Some ni"
      and ty: "get_type p \<noteq> PARAMETER_NOT_SET"
      by (auto simp: skips_def)
    obtain r s' where r: "setParameter ni p s = (r, s')" by (cases "setParameter ni p s")
    from setParameter_frame [of ni p s] r
    have fr: "driver s' = driver s" "parameterMap s' = parameterMap s" by simp_all
    show ?thesis
    proof (cases r)
      case (Inr u)
      have "parameterChanged_loop ps s'
          = parameterChanged_loop (filter (\<lambda>p. \<not> skips s' p) ps) s'"
        using Cons.prems fr by (intro Cons.IH) simp
      then show ?thesis
        using False ni ty r Inr d skips_frame [OF fr] by simp
    next
      case (Inl e)
      show ?thesis
      proof (cases e)
        case NullDriver
        then show ?thesis using False ni ty r Inl d by simp
      next
        case (DriverException what)
        let ?s'' = "LOG WARN [Txt ''param '', Txt (get_name p), Txt '' '', Txt what] s'"
        have fr': "driver ?s'' = driver s" "parameterMap ?s'' = parameterMap s"
          using fr by (simp_all add: LOG_def)
        have "parameterChanged_loop ps ?s''
            = parameterChanged_loop (filter (\<lambda>p. \<not> skips ?s'' p) ps) ?s''"
          using Cons.prems fr' by (intro Cons.IH) simp
        then show ?thesis
          using False ni ty r Inl DriverException d skips_frame [OF fr'] by simp
      qed
    qed
  qed
qed

lemma parameterChanged_loop_offline:
  "driver s = None \<Longrightarrow>
   parameterChanged_loop ps s =
     (None, s\<lparr>logged := logged s @
        replicate (length (filter (\<lambda>p. parameterMap s (get_name p) \<noteq> None) ps))
          (WARN, [Txt ''got parameter update while driver is not ready!''])\<rparr>)"
proof (induction ps arbitrary: s)
  case Nil
  then show ?case by simp
next
  case (Cons p ps)
  show ?case
  proof (cases "parameterMap s (get_name p)")
    case None
    then show ?thesis using Cons.IH [OF Cons.prems] by simp
  next
    case (Some ni)
    let ?s' = "LOG WARN [Txt ''got parameter update while driver is not ready!''] s"
    have d: "driver ?s' = None" using Cons.prems by (simp add: LOG_def)
    have m: "parameterMap ?s' = parameterMap s" by (simp add: LOG_def)
    have "parameterChanged_loop (p # ps) s = parameterChanged_loop ps ?s'"
      using Some Cons.prems by simp
    also have "\<dots> = (None, ?s'\<lparr>logged := logged ?s' @
        replicate (length (filter (\<lambda>p. parameterMap ?s' (get_name p) \<noteq> None) ps))
          (WARN, [Txt ''got parameter update while driver is not ready!''])\<rparr>)"
      by (rule Cons.IH [OF d])
    finally show ?thesis using Some
      by (simp add: m LOG_def)
  qed
qed

text \<open>
  Claim C10. A parameter is skipped when its name is not in the map, when its value is
  not set, or when there is no driver. A skipped parameter makes no device call and
  leaves every member as it is; the only trace is the warning that is logged for a known
  name while there is no driver. For a batch: with a driver the handler does exactly what
  it does on the batch without its skipped parameters; without a driver it only logs that
  warning, once for every known name. The batch is acknowledged as successful in every
  case.
\<close>

theorem skipped_parameter_ignored:
  "(skips s p \<longrightarrow>
      calls (snd (parameterChanged (p # ps) s)) = calls (snd (parameterChanged ps s))
      \<and> calls (snd (parameterChanged [p] s)) = calls s
      \<and> (snd (parameterChanged [p] s))\<lparr>logged := logged s\<rparr> = s
      \<and> (driver s \<noteq> None \<longrightarrow>
           parameterChanged (p # ps) s = parameterChanged ps s
           \<and> snd (parameterChanged [p] s) = s))
   \<and> (driver s \<noteq> None \<longrightarrow>
        parameterChanged ps s = parameterChanged (filter (\<lambda>p. \<not> skips s p) ps) s)
   \<and> (driver s = None \<longrightarrow>
        snd (parameterChanged ps s) =
          s\<lparr>logged := logged s @
             replicate (length (filter (\<lambda>p. parameterMap s (get_name p) \<noteq> None) ps))
               (WARN, [Txt ''got parameter update while driver is not ready!''])\<rparr>)
   \<and> fst (parameterChanged ps s) = Inr \<lparr>successful = True, reason = ''all good!''\<rparr>
   \<and> fst (parameterChanged (p # ps) s) = Inr \<lparr>successful = True, reason = ''all good!''\<rparr>"
proof -
  have ack: "fst (parameterChanged qs s) = Inr \<lparr>successful = True, reason = ''all good!''\<rparr>"
    for qs
  proof -
    obtain r s' where r: "parameterChanged_loop qs s = (r, s')"
      by (cases "parameterChanged_loop qs s")
    with parameterChanged_loop_returns [of qs s] have "r = None" by simp
    with r show ?thesis by (simp add: parameterChanged_def)
  qed
  have online: "parameterChanged qs s = parameterChanged (filter (\<lambda>p. \<not> skips s p) qs) s"
    if "driver s \<noteq> None" for qs
    using parameterChanged_loop_filter [OF that, of qs] by (simp add: parameterChanged_def)
  have offline: "snd (parameterChanged qs s) =
          s\<lparr>logged := logged s @
             replicate (length (filter (\<lambda>p. parameterMap s (get_name p) \<noteq> None) qs))
               (WARN, [Txt ''got parameter update while driver is not ready!''])\<rparr>"
    if "driver s = None" for qs
    using parameterChanged_loop_offline [OF that, of qs] by (simp add: parameterChanged_def)
  have single: "calls (snd (parameterChanged (p # ps) s)) = calls (snd (parameterChanged ps s))
      \<and> calls (snd (parameterChanged [p] s)) = calls s
      \<and> (snd (parameterChanged [p] s))\<lparr>logged := logged s\<rparr> = s
      \<and> (driver s \<noteq> None \<longrightarrow>
           parameterChanged (p # ps) s = parameterChanged ps s
           \<and> snd (parameterChanged [p] s) = s)"
    if sk: "skips s p"
  proof (cases "driver s = None")
    case True
    show ?thesis using True by (simp add: offline)
  next
    case False
    have "parameterChanged (p # ps) s = parameterChanged ps s"
      using online [OF False, of "p # ps"] online [OF False, of ps] sk by simp
    moreover have "parameterChanged [p] s = parameterChanged [] s"
      using online [OF False, of "[p]"] sk by simp
    moreover have "snd (parameterChanged [] s) = s" by (simp add: parameterChanged_def)
    ultimately show ?thesis by simp
  qed
  from ack [of ps] ack [of "p # ps"] online [of ps] offline [of ps] single
  show ?thesis by blast
qed

lemma demo_fields:
  "driver demo = Some echo_driver"
  "calls demo = []"
  "logged demo = []"
  "parameterMap demo ''exposure_time'' = Some (NodeInfo_ctor ''ExposureTime'' ''float'')"
  "parameterMap demo ''gain'' = Some (NodeInfo_ctor ''Gain'' ''float'')"
  "parameterMap demo ''trigger_mode'' = Some (NodeInfo_ctor ''TriggerMode'' ''enum'')"
  "parameterMap demo ''shutter'' = None"
  "currentExposureTime demo = 0"
  "currentGain demo = float_lowest"
  by (simp_all add: demo_def fresh_def)

theorem parameterChanged_acknowledges_witness:
  "fst (parameterChanged
     [\<lparr>get_name = ''exposure_time'', get_value = DoubleV (Finite 5000),
        value_to_string = ''5000.000000''\<rparr>,
      \<lparr>get_name = ''gain'', get_value = IntegerV 2, value_to_string = ''2''\<rparr>]
     (demo\<lparr>driver := Some rejecting_driver\<rparr>))
     = Inr \<lparr>successful = True, reason = ''all good!''\<rparr>
   \<and> logged (snd (parameterChanged
     [\<lparr>get_name = ''exposure_time'', get_value = DoubleV (Finite 5000),
        value_to_string = ''5000.000000''\<rparr>,
      \<lparr>get_name = ''gain'', get_value = IntegerV 2, value_to_string = ''2''\<rparr>]
     (demo\<lparr>driver := Some rejecting_driver\<rparr>)))
     = [(INFO, [Txt ''setting '', Txt ''ExposureTime'', Txt '' to: '', Val (Finite 5000)]),
        (WARN, [Txt ''param '', Txt ''exposure_time'', Txt '' '', Txt ''exposure rejected'']),
        (INFO, [Txt ''setting '', Txt ''Gain'', Txt '' to: '', Val (Finite 2)])]"
proof -
  let ?ps = "[\<lparr>get_name = ''exposure_time'', get_value = DoubleV (Finite 5000),
        value_to_string = ''5000.000000''\<rparr>,
      \<lparr>get_name = ''gain'', get_value = IntegerV 2, value_to_string = ''2''\<rparr>]"
  let ?s = "demo\<lparr>driver := Some rejecting_driver\<rparr>"
  have a: "fst (parameterChanged ?ps ?s) = Inr \<lparr>successful = True, reason = ''all good!''\<rparr>"
    by (rule parameterChanged_acknowledges)
  have b: "logged (snd (parameterChanged ?ps ?s))
     = [(INFO, [Txt ''setting '', Txt ''ExposureTime'', Txt '' to: '', Val (Finite 5000)]),
        (WARN, [Txt ''param '', Txt ''exposure_time'', Txt '' '', Txt ''exposure rejected'']),
        (INFO, [Txt ''setting '', Txt ''Gain'', Txt '' to: '', Val (Finite 2)])]"
    by (simp add: parameterChanged_def demo_fields get_type_def setParameter_def
        NodeInfo_ctor_def get_double_int_param_def setDouble_def LOG_def discard_def
        round_2 tolerance_echo
        rejecting_driver_def echo_driver_def)
  from a b show ?thesis by (rule conjI)
qed

theorem skipped_parameter_ignored_witness:
  "skips demo \<lparr>get_name = ''shutter'', get_value = DoubleV (Finite 1), value_to_string = ''1.000000''\<rparr>
   \<and> skips demo \<lparr>get_name = ''exposure_time'', get_value = NotSet, value_to_string = ''''\<rparr>
   \<and> driver demo \<noteq> None
   \<and> snd (parameterChanged
        [\<lparr>get_name = ''shutter'', get_value = DoubleV (Finite 1), value_to_string = ''1.000000''\<rparr>] demo)
       = demo
   \<and> snd (parameterChanged
        [\<lparr>get_name = ''exposure_time'', get_value = NotSet, value_to_string = ''''\<rparr>] demo)
       = demo
   \<and> calls (snd (parameterChanged
        [\<lparr>get_name = ''shutter'', get_value = DoubleV (Finite 1), value_to_string = ''1.000000''\<rparr>,
         \<lparr>get_name = ''exposure_time'', get_value = NotSet, value_to_string = ''''\<rparr>,
         \<lparr>get_name = ''gain'', get_value = IntegerV 2, value_to_string = ''2''\<rparr>] demo))
       = [SetDouble ''Gain'' (Finite 2)]
   \<and> driver (demo\<lparr>driver := None\<rparr>) = None
   \<and> snd (parameterChanged
        [\<lparr>get_name = ''shutter'', get_value = DoubleV (Finite 1), value_to_string = ''1.000000''\<rparr>,
         \<lparr>get_name = ''gain'', get_value = IntegerV 2, value_to_string = ''2''\<rparr>]
        (demo\<lparr>driver := None\<rparr>))
       = demo\<lparr>driver := None,
              logged := [(WARN, [Txt ''got parameter update while driver is not ready!''])]\<rparr>"
proof -
  let ?p1 = "\<lparr>get_name = ''shutter'', get_value = DoubleV (Finite 1), value_to_string = ''1.000000''\<rparr>"
  let ?p2 = "\<lparr>get_name = ''exposure_time'', get_value = NotSet, value_to_string = ''''\<rparr>"
  let ?p3 = "\<lparr>get_name = ''gain'', get_value = IntegerV 2, value_to_string = ''2''\<rparr>"
  let ?off = "demo\<lparr>driver := None\<rparr>"
  have s1: "skips demo ?p1" by (simp add: skips_def demo_fields)
  have s2: "skips demo ?p2" by (simp add: skips_def get_type_def)
  have on: "driver demo \<noteq> None" by (simp add: demo_fields)
  have off: "driver ?off = None" by simp
  from skipped_parameter_ignored [of demo ?p1 "[]"] s1 on
  have w1: "snd (parameterChanged [?p1] demo) = demo" by blast
  from skipped_parameter_ignored [of demo ?p2 "[]"] s2 on
  have w2: "snd (parameterChanged [?p2] demo) = demo" by blast
  from skipped_parameter_ignored [of demo ?p1 "[?p2, ?p3]"] s1 on
  have e1: "parameterChanged [?p1, ?p2, ?p3] demo = parameterChanged [?p2, ?p3] demo"
    by blast
  from skipped_parameter_ignored [of demo ?p2 "[?p3]"] s2 on
  have e2: "parameterChanged [?p2, ?p3] demo = parameterChanged [?p3] demo" by blast
  have "calls (snd (parameterChanged [?p3] demo)) = [SetDouble ''Gain'' (Finite 2)]"
    by (simp add: parameterChanged_def demo_fields get_type_def setParameter_def
        NodeInfo_ctor_def get_double_int_param_def setDouble_def LOG_def discard_def
        round_2 tolerance_echo
        echo_driver_def)
  with e1 e2 have w3: "calls (snd (parameterChanged [?p1, ?p2, ?p3] demo))
       = [SetDouble ''Gain'' (Finite 2)]"
    by simp
  from skipped_parameter_ignored [of ?off ?p1 "[?p1, ?p3]"] off
  have "snd (parameterChanged [?p1, ?p3] ?off) =
          ?off\<lparr>logged := logged ?off @
             replicate (length (filter (\<lambda>p. parameterMap ?off (get_name p) \<noteq> None) [?p1, ?p3]))
               (WARN, [Txt ''got parameter update while driver is not ready!''])\<rparr>"
    by blast
  then have w4: "snd (parameterChanged [?p1, ?p3] ?off)
       = demo\<lparr>driver := None,
              logged := [(WARN, [Txt ''got parameter update while driver is not ready!''])]\<rparr>"
    by (simp add: demo_fields)
  from s1 s2 on w1 w2 w3 off w4 show ?thesis by blast
qed

section \<open>Properties of the parameter registry\<close>

lemma map_insert_add:
  "f ++ map_insert m k v = (\<lambda>a. if a = k then Some v else f a) ++ m"
  by (rule ext) (auto simp: map_add_def map_insert_def split: option.splits)

lemma read_lines_step:
  "read_lines tok (l # ls) s =
     read_lines tok ls
       (if well_formed tok l then
          s\<lparr>parameterMap := map_insert (parameterMap s) (fst (line_entry tok l))
                                 (snd (line_entry tok l)),
            parameterList := parameterList s @ [tok l ! 0]\<rparr>
        else if malformed tok l then LOG WARN (snd (bad_line_warning l)) s
        else s)"
  by (auto simp: well_formed_def malformed_def comment_line_def line_entry_def
      bad_line_warning_def Let_def)

lemma read_lines_result:
  "read_lines tok ls s =
     s\<lparr>parameterMap := map_of (map (line_entry tok) (filter (well_formed tok) ls))
                          ++ parameterMap s,
       parameterList := parameterList s @ map (\<lambda>l. tok l ! 0) (filter (well_formed tok) ls),
       logged := logged s @ map bad_line_warning (filter (malformed tok) ls)\<rparr>"
proof (induction ls arbitrary: s)
  case Nil
  then show ?case by simp
next
  case (Cons l ls)
  have excl: "well_formed tok l \<Longrightarrow> \<not> malformed tok l"
    by (simp add: well_formed_def malformed_def)
  have w: "LOG WARN (snd (bad_line_warning l)) s = s\<lparr>logged := logged s @ [bad_line_warning l]\<rparr>"
    by (simp add: LOG_def bad_line_warning_def)
  show ?case
  proof (cases "well_formed tok l")
    case True
    show ?thesis
      unfolding read_lines_step Cons.IH using True excl
      by (simp add: map_insert_add)
  next
    case False
    show ?thesis
      unfolding read_lines_step Cons.IH using False
      by (cases "malformed tok l") (simp_all add: w)
  qed
qed

lemma dom_map_of_entries:
  "dom (map_of (map (line_entry tok) ls)) = set (map (\<lambda>l. tok l ! 0) ls)"
  by (simp add: dom_map_of_conv_image_fst image_image line_entry_def)


lemma demo_tokens:
  "quoted_tokens ''# name type node'' = [''#'', ''name'', ''type'', ''node'']"
  "quoted_tokens ''exposure_time float ExposureTime''
     = [''exposure_time'', ''float'', ''ExposureTime'']"
  "quoted_tokens [] = []"
  "quoted_tokens ''gain float Gain'' = [''gain'', ''float'', ''Gain'']"
  "quoted_tokens ''gain float GainRaw'' = [''gain'', ''float'', ''GainRaw'']"
  "quoted_tokens ''frame_rate'' = [''frame_rate'']"
  "quoted_tokens [CHR ''t'', CHR ''m'', CHR '' '', CHR ''e'', CHR ''n'', CHR ''u'', CHR ''m'',
      CHR '' '', CHR 0x22, CHR ''T'', CHR '' '', CHR ''M'', CHR 0x22]
     = [''tm'', ''enum'', ''T M'']"
  by (simp_all add: quoted_tokens_def is_space_def)

text \<open>
  Claim C7, as the code has it. When the file opens, the load succeeds; the list gains the
  logical names of the well-formed lines, in file order; a name that the map does not
  hold yet gets the node info of the first well-formed line that has the name, and a name
  that it holds keeps its node info; every malformed line adds one warning, and blank
  lines and comments add nothing. Starting from an empty map, the map holds one
  descriptor for every distinct logical name: as many as there are well-formed lines
  when their names are distinct, and never more. When the file does not open, the load
  fails, logs an error and registers nothing.
\<close>

theorem registry_load:
  "(fs (parameterFile s) = Some ls \<longrightarrow>
      readParameterFile tok fs s =
        (True,
         s\<lparr>parameterMap := map_of (map (line_entry tok) (filter (well_formed tok) ls))
                              ++ parameterMap s,
           parameterList :=
             parameterList s @ map (\<lambda>l. tok l ! 0) (filter (well_formed tok) ls),
           logged := logged s @ map bad_line_warning (filter (malformed tok) ls)\<rparr>)
    \<and> (parameterMap s = Map.empty \<longrightarrow>
         parameterMap (snd (readParameterFile tok fs s))
           = map_of (map (line_entry tok) (filter (well_formed tok) ls))
       \<and> dom (parameterMap (snd (readParameterFile tok fs s)))
           = set (map (\<lambda>l. tok l ! 0) (filter (well_formed tok) ls))
       \<and> card (dom (parameterMap (snd (readParameterFile tok fs s))))
           \<le> length (filter (well_formed tok) ls)
       \<and> (distinct (map (\<lambda>l. tok l ! 0) (filter (well_formed tok) ls)) \<longrightarrow>
            card (dom (parameterMap (snd (readParameterFile tok fs s))))
              = length (filter (well_formed tok) ls))))
   \<and> (fs (parameterFile s) = None \<longrightarrow>
        readParameterFile tok fs s =
          (False,
           s\<lparr>logged := logged s @
              [(ERROR, [Txt ''cannot read parameter definition file: '',
                        Txt (parameterFile s)])]\<rparr>))"
proof -
  let ?wf = "filter (well_formed tok) ls"
  let ?names = "map (\<lambda>l. tok l ! 0) ?wf"
  let ?s' = "snd (readParameterFile tok fs s)"
  have opened: "readParameterFile tok fs s =
        (True,
         s\<lparr>parameterMap := map_of (map (line_entry tok) ?wf) ++ parameterMap s,
           parameterList := parameterList s @ ?names,
           logged := logged s @ map bad_line_warning (filter (malformed tok) ls)\<rparr>)"
    if "fs (parameterFile s) = Some ls"
    using that by (simp add: readParameterFile_def read_lines_result)
  have m: "parameterMap ?s' = map_of (map (line_entry tok) ?wf)"
    if "fs (parameterFile s) = Some ls" "parameterMap s = Map.empty"
    using opened [OF that(1)] that(2) by simp
  have d: "dom (parameterMap ?s') = set ?names"
    if "fs (parameterFile s) = Some ls" "parameterMap s = Map.empty"
    using m [OF that] by (simp only: dom_map_of_entries)
  have c: "card (dom (parameterMap ?s')) \<le> length ?wf"
    if "fs (parameterFile s) = Some ls" "parameterMap s = Map.empty"
    using d [OF that] card_length [of ?names] by simp
  have e: "card (dom (parameterMap ?s')) = length ?wf"
    if "fs (parameterFile s) = Some ls" "parameterMap s = Map.empty" "distinct ?names"
    using d [OF that(1,2)] distinct_card [OF that(3)] by simp
  have closed: "readParameterFile tok fs s =
          (False,
           s\<lparr>logged := logged s @
              [(ERROR, [Txt ''cannot read parameter definition file: '',
                        Txt (parameterFile s)])]\<rparr>)"
    if "fs (parameterFile s) = None"
    using that by (simp add: readParameterFile_def LOG_def)
  from opened m d c e closed show ?thesis by blast
qed

theorem registry_load_witness:
  "demo_fs (parameterFile ((fresh :: nat CameraDriver)\<lparr>parameterFile := ''parameters.cfg''\<rparr>))
     = Some demo_file
   \<and> readParameterFile quoted_tokens demo_fs
        ((fresh :: nat CameraDriver)\<lparr>parameterFile := ''parameters.cfg''\<rparr>)
     = (True,
        fresh\<lparr>parameterFile := ''parameters.cfg'',
          parameterMap := [''tm'' \<mapsto> NodeInfo_ctor ''T M'' ''enum'',
                           ''gain'' \<mapsto> NodeInfo_ctor ''Gain'' ''float'',
                           ''exposure_time'' \<mapsto> NodeInfo_ctor ''ExposureTime'' ''float''],
          parameterList := [''exposure_time'', ''gain'', ''tm''],
          logged := [(WARN, [Txt ''skipping bad camera param line: '', Txt ''frame_rate''])]\<rparr>)
   \<and> card (dom (parameterMap (snd (readParameterFile quoted_tokens demo_fs
        ((fresh :: nat CameraDriver)\<lparr>parameterFile := ''parameters.cfg''\<rparr>))))) = 3
   \<and> demo_fs (parameterFile ((fresh :: nat CameraDriver)\<lparr>parameterFile := ''missing.cfg''\<rparr>))
     = None
   \<and> fst (readParameterFile quoted_tokens demo_fs
        ((fresh :: nat CameraDriver)\<lparr>parameterFile := ''missing.cfg''\<rparr>)) = False"
proof -
  let ?s = "(fresh :: nat CameraDriver)\<lparr>parameterFile := ''parameters.cfg''\<rparr>"
  let ?t = "(fresh :: nat CameraDriver)\<lparr>parameterFile := ''missing.cfg''\<rparr>"
  have f: "demo_fs (parameterFile ?s) = Some demo_file" by (simp add: demo_fs_def)
  have g: "demo_fs (parameterFile ?t) = None" by (simp add: demo_fs_def)
  have e: "parameterMap ?s = Map.empty" by (simp add: fresh_def)
  have wf: "filter (well_formed quoted_tokens) demo_file
      = [''exposure_time float ExposureTime'', ''gain float Gain'',
         [CHR ''t'', CHR ''m'', CHR '' '', CHR ''e'', CHR ''n'', CHR ''u'', CHR ''m'',
          CHR '' '', CHR 0x22, CHR ''T'', CHR '' '', CHR ''M'', CHR 0x22]]"
    by (simp add: demo_file_def well_formed_def comment_line_def demo_tokens)
  have mf: "filter (malformed quoted_tokens) demo_file = [''frame_rate'']"
    by (simp add: demo_file_def malformed_def comment_line_def demo_tokens)
  have dn: "distinct (map (\<lambda>l. quoted_tokens l ! 0)
      (filter (well_formed quoted_tokens) demo_file))"
    by (simp add: wf demo_tokens)
  note inst = registry_load [of demo_fs ?s demo_file quoted_tokens]
  from inst f have "readParameterFile quoted_tokens demo_fs ?s =
        (True,
         ?s\<lparr>parameterMap :=
              map_of (map (line_entry quoted_tokens) (filter (well_formed quoted_tokens) demo_file))
                ++ parameterMap ?s,
           parameterList := parameterList ?s @
             map (\<lambda>l. quoted_tokens l ! 0) (filter (well_formed quoted_tokens) demo_file),
           logged := logged ?s @
             map bad_line_warning (filter (malformed quoted_tokens) demo_file)\<rparr>)"
    by blast
  then have w1: "readParameterFile quoted_tokens demo_fs ?s
     = (True,
        fresh\<lparr>parameterFile := ''parameters.cfg'',
          parameterMap := [''tm'' \<mapsto> NodeInfo_ctor ''T M'' ''enum'',
                           ''gain'' \<mapsto> NodeInfo_ctor ''Gain'' ''float'',
                           ''exposure_time'' \<mapsto> NodeInfo_ctor ''ExposureTime'' ''float''],
          parameterList := [''exposure_time'', ''gain'', ''tm''],
          logged := [(WARN, [Txt ''skipping bad camera param line: '', Txt ''frame_rate''])]\<rparr>)"
    by (simp add: wf mf line_entry_def demo_tokens bad_line_warning_def fresh_def)
  from inst f e dn
  have "card (dom (parameterMap (snd (readParameterFile quoted_tokens demo_fs ?s))))
      = length (filter (well_formed quoted_tokens) demo_file)"
    by blast
  then have w2: "card (dom (parameterMap (snd (readParameterFile quoted_tokens demo_fs ?s)))) = 3"
    by (simp add: wf)
  from registry_load [of demo_fs ?t demo_file quoted_tokens] g
  have "readParameterFile quoted_tokens demo_fs ?t =
          (False,
           ?t\<lparr>logged := logged ?t @
              [(ERROR, [Txt ''cannot read parameter definition file: '',
                        Txt (parameterFile ?t)])]\<rparr>)"
    by blast
  then have w3: "fst (readParameterFile quoted_tokens demo_fs ?t) = False" by simp
  from f w1 w2 g w3 show ?thesis by blast
qed

theorem registry_duplicate_name_counterexample:
  "fst (readParameterFile quoted_tokens demo_fs
        ((fresh :: nat CameraDriver)\<lparr>parameterFile := ''twice.cfg''\<rparr>))
   \<and> length (filter (well_formed quoted_tokens) twice_file) = 2
   \<and> filter (malformed quoted_tokens) twice_file = []
   \<and> parameterList (snd (readParameterFile quoted_tokens demo_fs
        ((fresh :: nat CameraDriver)\<lparr>parameterFile := ''twice.cfg''\<rparr>))) = [''gain'', ''gain'']
   \<and> parameterMap (snd (readParameterFile quoted_tokens demo_fs
        ((fresh :: nat CameraDriver)\<lparr>parameterFile := ''twice.cfg''\<rparr>)))
       = [''gain'' \<mapsto> NodeInfo_ctor ''Gain'' ''float'']
   \<and> card (dom (parameterMap (snd (readParameterFile quoted_tokens demo_fs
        ((fresh :: nat CameraDriver)\<lparr>parameterFile := ''twice.cfg''\<rparr>))))) = 1"
  by (simp add: readParameterFile_def demo_fs_def twice_file_def demo_tokens well_formed_def
      malformed_def comment_line_def Let_def map_insert_def fresh_def)

section \<open>Properties of the control-state synchronizer\<close>

lemma setDouble_returns:
  assumes "driver s = Some d" and "drv_setDouble d (calls s) n v = Inr (msg, retV)"
  shows "setDouble n v s =
     (Inr (msg = ''OK'' \<and> \<not> tolerance_exceeded v retV),
      s\<lparr>logged := logged s @ setDouble_log n v (Some (msg, retV)),
        calls := calls s @ [SetDouble n v]\<rparr>)"
  using assms by (simp add: setDouble_def setDouble_log_def LOG_def Let_def)

lemma setDouble_throws:
  assumes "driver s = Some d" and "drv_setDouble d (calls s) n v = Inl what"
  shows "setDouble n v s =
     (Inl (DriverException what),
      s\<lparr>logged := logged s @ setDouble_log n v None,
        calls := calls s @ [SetDouble n v]\<rparr>)"
  using assms by (simp add: setDouble_def setDouble_log_def LOG_def Let_def)

lemma control_exposure_idle:
  "\<not> exposure_due msg s \<Longrightarrow> control_exposure (exposure_time msg) s = (Inr False, s)"
  by (auto simp: control_exposure_def exposure_due_def)

lemma control_exposure_unknown:
  "exposure_due msg s \<Longrightarrow> parameterMap s ''exposure_time'' = None \<Longrightarrow>
   control_exposure (exposure_time msg) s =
     (Inr False,
      s\<lparr>logged := logged s @
        [(WARN, [Txt ''no node name defined for exposure_time, check .cfg file!''])]\<rparr>)"
  by (simp add: control_exposure_def exposure_due_def LOG_def)

lemma control_exposure_throws:
  assumes "driver s = Some d" and "exposure_due msg s"
    and "parameterMap s ''exposure_time'' = Some ni"
    and "drv_setDouble d (calls s) (name ni) (Finite (real (unat (exposure_time msg)))) = Inl what"
  shows "control_exposure (exposure_time msg) s =
     (Inl (DriverException what),
      s\<lparr>logged := logged s @ setDouble_log (name ni) (Finite (real (unat (exposure_time msg)))) None,
        calls := calls s @ [SetDouble (name ni) (Finite (real (unat (exposure_time msg))))]\<rparr>)"
  using assms(2,3) setDouble_throws [OF assms(1,4)]
  by (simp add: control_exposure_def exposure_due_def)

lemma control_exposure_returns:
  assumes "driver s = Some d" and "exposure_due msg s"
    and "parameterMap s ''exposure_time'' = Some ni"
    and "drv_setDouble d (calls s) (name ni) (Finite (real (unat (exposure_time msg)))) = Inr (m, r)"
  shows "control_exposure (exposure_time msg) s =
     (Inr True,
      s\<lparr>logged := logged s @
          setDouble_log (name ni) (Finite (real (unat (exposure_time msg)))) (Some (m, r)),
        calls := calls s @ [SetDouble (name ni) (Finite (real (unat (exposure_time msg))))],
        currentExposureTime := exposure_time msg\<rparr>)"
  using assms(2,3) setDouble_returns [OF assms(1,4)]
  by (simp add: control_exposure_def exposure_due_def)

lemma control_gain_idle:
  "\<not> gain_due msg s \<Longrightarrow> control_gain (gain msg) s = (Inr False, s)"
  by (auto simp: control_gain_def gain_due_def)

lemma control_gain_unknown:
  "gain_due msg s \<Longrightarrow> parameterMap s ''gain'' = None \<Longrightarrow>
   control_gain (gain msg) s =
     (Inr False,
      s\<lparr>logged := logged s @
        [(WARN, [Txt ''no node name defined for exposure_time, check .cfg file!''])]\<rparr>)"
  by (simp add: control_gain_def gain_due_def LOG_def)

lemma control_gain_throws:
  assumes "driver s = Some d" and "gain_due msg s"
    and "parameterMap s ''gain'' = Some ni"
    and "drv_setDouble d (calls s) (name ni) (Finite (gain msg)) = Inl what"
  shows "control_gain (gain msg) s =
     (Inl (DriverException what),
      s\<lparr>logged := logged s @ setDouble_log (name ni) (Finite (gain msg)) None,
        calls := calls s @ [SetDouble (name ni) (Finite (gain msg))]\<rparr>)"
  using assms(2,3) setDouble_throws [OF assms(1,4)]
  by (simp add: control_gain_def gain_due_def)

lemma control_gain_returns:
  assumes "driver s = Some d" and "gain_due msg s"
    and "parameterMap s ''gain'' = Some ni"
    and "drv_setDouble d (calls s) (name ni) (Finite (gain msg)) = Inr (m, r)"
  shows "control_gain (gain msg) s =
     (Inr True,
      s\<lparr>logged := logged s @ setDouble_log (name ni) (Finite (gain msg)) (Some (m, r)),
        calls := calls s @ [SetDouble (name ni) (Finite (gain msg))],
        currentGain := gain msg\<rparr>)"
  using assms(2,3) setDouble_returns [OF assms(1,4)]
  by (simp add: control_gain_def gain_due_def)

lemma control_report_frame:
  "calls (control_report et g a b s) = calls s
   \<and> currentExposureTime (control_report et g a b s) = currentExposureTime s
   \<and> currentGain (control_report et g a b s) = currentGain s
   \<and> driver (control_report et g a b s) = driver s
   \<and> parameterMap (control_report et g a b s) = parameterMap s
   \<and> set (logged s) \<subseteq> set (logged (control_report et g a b s))"
  by (auto simp: control_report_def LOG_def Let_def)


text \<open>
  Claim C1, as the code has it. Both fields of the command are due and the registry knows
  both names. When the device throws while the exposure is applied, the handler catches
  the exception and logs it, the function returns, the gain is not attempted and the
  control state is as before: the device has seen the exposure call only. When the
  exposure apply returns and the device throws while the gain is applied, the exception
  is caught and logged as well, both calls were made, and the exposure that was applied
  before stays recorded.
\<close>

theorem control_exception_abandons:
  assumes "driver s = Some d"
    and "exposure_due msg s" and "gain_due msg s"
    and "parameterMap s ''exposure_time'' = Some ni_e"
    and "parameterMap s ''gain'' = Some ni_g"
  shows "(drv_setDouble d (calls s) (name ni_e) (Finite (real (unat (exposure_time msg)))) = Inl what \<longrightarrow>
      controlCallback msg s =
        (None,
         s\<lparr>logged := logged s
              @ setDouble_log (name ni_e) (Finite (real (unat (exposure_time msg)))) None
              @ [(WARN, [Txt ''failed to control: '', Txt what])],
           calls := calls s @ [SetDouble (name ni_e) (Finite (real (unat (exposure_time msg))))]\<rparr>))
    \<and> (drv_setDouble d (calls s) (name ni_e) (Finite (real (unat (exposure_time msg)))) = Inr (m, r)
       \<and> drv_setDouble d (calls s @ [SetDouble (name ni_e) (Finite (real (unat (exposure_time msg))))])
            (name ni_g) (Finite (gain msg)) = Inl what \<longrightarrow>
      controlCallback msg s =
        (None,
         s\<lparr>logged := logged s
              @ setDouble_log (name ni_e) (Finite (real (unat (exposure_time msg)))) (Some (m, r))
              @ setDouble_log (name ni_g) (Finite (gain msg)) None
              @ [(WARN, [Txt ''failed to control: '', Txt what]),
                 (INFO, [Txt ''changed exposure time to '', Num (uint (exposure_time msg)),
                         Txt ''us''])],
           calls := calls s @ [SetDouble (name ni_e) (Finite (real (unat (exposure_time msg)))),
                               SetDouble (name ni_g) (Finite (gain msg))],
           currentExposureTime := exposure_time msg\<rparr>))"
proof -
  let ?et = "Finite (real (unat (exposure_time msg)))"
  have first: "controlCallback msg s =
        (None,
         s\<lparr>logged := logged s @ setDouble_log (name ni_e) ?et None
              @ [(WARN, [Txt ''failed to control: '', Txt what])],
           calls := calls s @ [SetDouble (name ni_e) ?et]\<rparr>)"
    if "drv_setDouble d (calls s) (name ni_e) ?et = Inl what"
    using control_exposure_throws [OF assms(1,2,4) that]
    by (simp add: controlCallback_def control_report_def LOG_def Let_def)
  have second: "controlCallback msg s =
        (None,
         s\<lparr>logged := logged s @ setDouble_log (name ni_e) ?et (Some (m, r))
              @ setDouble_log (name ni_g) (Finite (gain msg)) None
              @ [(WARN, [Txt ''failed to control: '', Txt what]),
                 (INFO, [Txt ''changed exposure time to '', Num (uint (exposure_time msg)),
                         Txt ''us''])],
           calls := calls s @ [SetDouble (name ni_e) ?et, SetDouble (name ni_g) (Finite (gain msg))],
           currentExposureTime := exposure_time msg\<rparr>)"
    if e: "drv_setDouble d (calls s) (name ni_e) ?et = Inr (m, r)"
      and g: "drv_setDouble d (calls s @ [SetDouble (name ni_e) ?et]) (name ni_g) (Finite (gain msg))
                = Inl what"
  proof -
    let ?s1 = "s\<lparr>logged := logged s @ setDouble_log (name ni_e) ?et (Some (m, r)),
        calls := calls s @ [SetDouble (name ni_e) ?et],
        currentExposureTime := exposure_time msg\<rparr>"
    have c1: "control_exposure (exposure_time msg) s = (Inr True, ?s1)"
      by (rule control_exposure_returns [OF assms(1,2,4) e])
    have d1: "driver ?s1 = Some d" using assms(1) by simp
    have g1: "gain_due msg ?s1" using assms(3) by (simp add: gain_due_def)
    have n1: "parameterMap ?s1 ''gain'' = Some ni_g" using assms(5) by simp
    have r1: "drv_setDouble d (calls ?s1) (name ni_g) (Finite (gain msg)) = Inl what"
      using g by simp
    have c2: "control_gain (gain msg) ?s1 =
        (Inl (DriverException what),
         ?s1\<lparr>logged := logged ?s1 @ setDouble_log (name ni_g) (Finite (gain msg)) None,
             calls := calls ?s1 @ [SetDouble (name ni_g) (Finite (gain msg))]\<rparr>)"
      by (rule control_gain_throws [OF d1 g1 n1 r1])
    show ?thesis
      unfolding controlCallback_def Let_def c1 prod.case sum.case c2 exn.case
      by (simp add: control_report_def LOG_def)
  qed
  from first second show ?thesis by blast
qed

lemma float_lowest_less: "float_lowest < 2" "float_lowest \<noteq> 2" "2 \<noteq> float_lowest"
proof -
  show "float_lowest < 2" by (simp add: float_lowest_def)
  then show "float_lowest \<noteq> 2" "2 \<noteq> float_lowest" by simp_all
qed

theorem control_exposure_blocks_gain_counterexample:
  "exposure_due \<lparr>exposure_time = 5000, gain = 2\<rparr> (demo\<lparr>driver := Some rejecting_driver\<rparr>)
   \<and> gain_due \<lparr>exposure_time = 5000, gain = 2\<rparr> (demo\<lparr>driver := Some rejecting_driver\<rparr>)
   \<and> drv_setDouble rejecting_driver [SetDouble ''ExposureTime'' (Finite 5000)] ''Gain'' (Finite 2)
        = Inr (''OK'', Finite 2)
   \<and> controlCallback \<lparr>exposure_time = 5000, gain = 2\<rparr> (demo\<lparr>driver := Some rejecting_driver\<rparr>)
     = (None,
        demo\<lparr>driver := Some rejecting_driver,
          logged := [(INFO, [Txt ''setting '', Txt ''ExposureTime'', Txt '' to: '', Val (Finite 5000)]),
                     (WARN, [Txt ''failed to control: '', Txt ''exposure rejected''])],
          calls := [SetDouble ''ExposureTime'' (Finite 5000)]\<rparr>)"
  by (simp add: exposure_due_def gain_due_def demo_fields float_lowest_less
      controlCallback_def control_exposure_def setDouble_def LOG_def Let_def
      NodeInfo_ctor_def control_report_def rejecting_driver_def echo_driver_def)

theorem control_exception_abandons_witness:
  "driver (demo\<lparr>driver := Some rejecting_driver\<rparr>) = Some rejecting_driver
   \<and> exposure_due \<lparr>exposure_time = 5000, gain = 2\<rparr> (demo\<lparr>driver := Some rejecting_driver\<rparr>)
   \<and> gain_due \<lparr>exposure_time = 5000, gain = 2\<rparr> (demo\<lparr>driver := Some rejecting_driver\<rparr>)
   \<and> calls (snd (controlCallback \<lparr>exposure_time = 5000, gain = 2\<rparr>
        (demo\<lparr>driver := Some rejecting_driver\<rparr>))) = [SetDouble ''ExposureTime'' (Finite 5000)]
   \<and> currentGain (snd (controlCallback \<lparr>exposure_time = 5000, gain = 2\<rparr>
        (demo\<lparr>driver := Some rejecting_driver\<rparr>))) = float_lowest"
proof -
  let ?s = "demo\<lparr>driver := Some rejecting_driver\<rparr>"
  let ?msg = "\<lparr>exposure_time = 5000, gain = 2\<rparr>"
  have h1: "driver ?s = Some rejecting_driver" by simp
  have h2: "exposure_due ?msg ?s" by (simp add: exposure_due_def demo_fields)
  have h3: "gain_due ?msg ?s" by (simp add: gain_due_def demo_fields float_lowest_less)
  have h4: "parameterMap ?s ''exposure_time'' = Some (NodeInfo_ctor ''ExposureTime'' ''float'')"
    by (simp add: demo_fields)
  have h5: "parameterMap ?s ''gain'' = Some (NodeInfo_ctor ''Gain'' ''float'')"
    by (simp add: demo_fields)
  have h6: "drv_setDouble rejecting_driver (calls ?s)
      (name (NodeInfo_ctor ''ExposureTime'' ''float'')) (Finite (real (unat (exposure_time ?msg))))
      = Inl ''exposure rejected''"
    by (simp add: rejecting_driver_def NodeInfo_ctor_def)
  from control_exception_abandons [OF h1 h2 h3 h4 h5, of "''exposure rejected''"] h6
  have "controlCallback ?msg ?s =
        (None,
         ?s\<lparr>logged := logged ?s
              @ setDouble_log (name (NodeInfo_ctor ''ExposureTime'' ''float''))
                  (Finite (real (unat (exposure_time ?msg)))) None
              @ [(WARN, [Txt ''failed to control: '', Txt ''exposure rejected''])],
           calls := calls ?s @ [SetDouble (name (NodeInfo_ctor ''ExposureTime'' ''float''))
                                  (Finite (real (unat (exposure_time ?msg))))]\<rparr>)"
    by blast
  then have "calls (snd (controlCallback ?msg ?s)) = [SetDouble ''ExposureTime'' (Finite 5000)]"
    and "currentGain (snd (controlCallback ?msg ?s)) = float_lowest"
    by (simp_all add: demo_fields NodeInfo_ctor_def)
  with h1 h2 h3 show ?thesis by blast
qed

lemma control_exposure_summary:
  assumes "driver s = Some d"
  obtains r s1 where "control_exposure (exposure_time msg) s = (r, s1)"
    and "r \<noteq> Inl NullDriver"
    and "driver s1 = Some d" and "parameterMap s1 = parameterMap s"
    and "currentGain s1 = currentGain s"
    and "calls s1 = calls s @ exposure_call msg s"
    and "currentExposureTime s1 =
          (if isl r \<or> exposure_call msg s = [] then currentExposureTime s
           else exposure_time msg)"
    and "isl r = exposure_throws d msg s"
proof (cases "exposure_due msg s")
  case False
  show ?thesis
    by (rule that [of "Inr False" s])
      (use False assms in \<open>simp_all add: control_exposure_idle exposure_call_def field_call_def
         exposure_throws_def call_throws_def split: option.splits\<close>)
next
  case True
  show ?thesis
  proof (cases "parameterMap s ''exposure_time''")
    case None
    show ?thesis
      by (rule that [OF control_exposure_unknown [OF True None]])
        (use None assms in \<open>simp_all add: exposure_call_def field_call_def
           exposure_throws_def call_throws_def\<close>)
  next
    case (Some ni)
    let ?v = "Finite (real (unat (exposure_time msg)))"
    have ec: "exposure_call msg s = [SetDouble (name ni) ?v]"
      using True Some by (simp add: exposure_call_def field_call_def)
    show ?thesis
    proof (cases "drv_setDouble d (calls s) (name ni) ?v")
      case (Inl what)
      show ?thesis
        by (rule that [OF control_exposure_throws [OF assms True Some Inl]])
          (use assms ec Inl in \<open>simp_all add: exposure_throws_def call_throws_def\<close>)
    next
      case (Inr mr)
      obtain m r where mr: "mr = (m, r)" by (cases mr)
      show ?thesis
        by (rule that [OF control_exposure_returns [OF assms True Some Inr [unfolded mr]]])
          (use assms ec Inr in \<open>simp_all add: exposure_throws_def call_throws_def\<close>)
    qed
  qed
qed

lemma control_gain_summary:
  assumes "driver s = Some d"
  obtains r s1 where "control_gain (gain msg) s = (r, s1)"
    and "r \<noteq> Inl NullDriver"
    and "driver s1 = Some d" and "parameterMap s1 = parameterMap s"
    and "currentExposureTime s1 = currentExposureTime s"
    and "calls s1 = calls s @ gain_call msg s"
    and "currentGain s1 =
          (if isl r \<or> gain_call msg s = [] then currentGain s else gain msg)"
    and "isl r = call_throws d (calls s) (gain_call msg s)"
proof (cases "gain_due msg s")
  case False
  show ?thesis
    by (rule that [of "Inr False" s])
      (use False assms in \<open>simp_all add: control_gain_idle gain_call_def field_call_def
         call_throws_def split: option.splits\<close>)
next
  case True
  show ?thesis
  proof (cases "parameterMap s ''gain''")
    case None
    show ?thesis
      by (rule that [OF control_gain_unknown [OF True None]])
        (use None assms in \<open>simp_all add: gain_call_def field_call_def call_throws_def\<close>)
  next
    case (Some ni)
    have gc: "gain_call msg s = [SetDouble (name ni) (Finite (gain msg))]"
      using True Some by (simp add: gain_call_def field_call_def)
    show ?thesis
    proof (cases "drv_setDouble d (calls s) (name ni) (Finite (gain msg))")
      case (Inl what)
      show ?thesis
        by (rule that [OF control_gain_throws [OF assms True Some Inl]])
          (use assms gc Inl in \<open>simp_all add: call_throws_def\<close>)
    next
      case (Inr mr)
      obtain m r where mr: "mr = (m, r)" by (cases mr)
      show ?thesis
        by (rule that [OF control_gain_returns [OF assms True Some Inr [unfolded mr]]])
          (use assms gc Inr in \<open>simp_all add: call_throws_def\<close>)
    qed
  qed
qed

lemma gain_call_frame:
  "parameterMap s1 = parameterMap s \<Longrightarrow> currentGain s1 = currentGain s \<Longrightarrow>
   gain_call msg s1 = gain_call msg s"
  by (simp add: gain_call_def gain_due_def)

text \<open>The callback as a whole: its device calls and the two members, in every case.\<close>

lemma controlCallback_summary:
  assumes "driver s = Some d"
  obtains s' where "controlCallback msg s = (None, s')"
    and "driver s' = Some d" and "parameterMap s' = parameterMap s"
    and "calls s' = calls s @ exposure_call msg s
           @ (if exposure_throws d msg s then [] else gain_call msg s)"
    and "currentExposureTime s' =
           (if exposure_call msg s = [] \<or> exposure_throws d msg s then currentExposureTime s
            else exposure_time msg)"
    and "currentGain s' =
           (if gain_call msg s = [] \<or> exposure_throws d msg s \<or> gain_throws d msg s
            then currentGain s else gain msg)"
proof -
  obtain r1 s1 where e: "control_exposure (exposure_time msg) s = (r1, s1)"
    and e0: "r1 \<noteq> Inl NullDriver"
    and e1: "driver s1 = Some d" and e2: "parameterMap s1 = parameterMap s"
    and e3: "currentGain s1 = currentGain s"
    and e4: "calls s1 = calls s @ exposure_call msg s"
    and e5: "currentExposureTime s1 =
          (if isl r1 \<or> exposure_call msg s = [] then currentExposureTime s
           else exposure_time msg)"
    and e6: "isl r1 = exposure_throws d msg s"
    by (rule control_exposure_summary [OF assms, of msg]) blast
  show ?thesis
  proof (cases r1)
    case (Inl x)
    with e0 obtain what where w: "r1 = Inl (DriverException what)" by (cases x) auto
    let ?s' = "control_report (exposure_time msg) (gain msg) False False
                 (LOG WARN [Txt ''failed to control: '', Txt what] s1)"
    have cc: "controlCallback msg s = (None, ?s')"
      by (simp add: controlCallback_def e w Let_def)
    have thrown: "exposure_throws d msg s" using e6 w by simp
    show ?thesis
      by (rule that [OF cc])
        (use e1 e2 e3 e4 e5 w thrown in \<open>simp_all add: control_report_frame LOG_def\<close>)
  next
    case (Inr logTime)
    have quiet: "\<not> exposure_throws d msg s" using e6 Inr by simp
    obtain r2 s2 where g: "control_gain (gain msg) s1 = (r2, s2)"
      and g0: "r2 \<noteq> Inl NullDriver"
      and g1: "driver s2 = Some d" and g2: "parameterMap s2 = parameterMap s1"
      and g3: "currentExposureTime s2 = currentExposureTime s1"
      and g4: "calls s2 = calls s1 @ gain_call msg s1"
      and g5: "currentGain s2 =
          (if isl r2 \<or> gain_call msg s1 = [] then currentGain s1 else gain msg)"
      and g6: "isl r2 = call_throws d (calls s1) (gain_call msg s1)"
      by (rule control_gain_summary [OF e1, of msg]) blast
    have gc: "gain_call msg s1 = gain_call msg s" by (rule gain_call_frame [OF e2 e3])
    have gt: "isl r2 = gain_throws d msg s"
      using g6 quiet by (simp add: gain_throws_def e4 gc)
    show ?thesis
    proof (cases r2)
      case (Inl x)
      with g0 obtain what where w: "r2 = Inl (DriverException what)" by (cases x) auto
      let ?s' = "control_report (exposure_time msg) (gain msg) logTime False
                   (LOG WARN [Txt ''failed to control: '', Txt what] s2)"
      have cc: "controlCallback msg s = (None, ?s')"
        by (simp add: controlCallback_def e Inr g w Let_def)
      have thrown: "gain_throws d msg s" using gt w by simp
      show ?thesis
        by (rule that [OF cc])
          (use e1 e2 e3 e4 e5 g1 g2 g3 g4 g5 gc Inr w quiet thrown in
            \<open>simp_all add: control_report_frame LOG_def\<close>)
    next
      case r2: (Inr logGain)
      let ?s' = "control_report (exposure_time msg) (gain msg) logTime logGain s2"
      have cc: "controlCallback msg s = (None, ?s')"
        by (simp add: controlCallback_def e Inr g r2 Let_def)
      have nothrow: "\<not> gain_throws d msg s" using gt r2 by simp
      show ?thesis
        by (rule that [OF cc])
          (use e1 e2 e3 e4 e5 g1 g2 g3 g4 g5 gc Inr r2 quiet nothrow in
            \<open>simp_all add: control_report_frame\<close>)
    qed
  qed
qed

text \<open>
  Claim C3, as the code has it. With a driver in place the callback returns. A field
  makes a device call exactly when it is due and the registry knows its logical name,
  the exposure first; the gain call is left out when the device throws on the exposure
  call. The member of a field is the new value exactly when the call for the field was
  made and the device returned from it, whatever status the setter computed; in every
  other case, also when the device throws on the call, the member is as it was. After
  a command during which the device threw on no call, the same command once more
  makes no device call and changes neither member.
\<close>

theorem control_applies_on_change:
  assumes "driver s = Some d"
  shows "fst (controlCallback msg s) = None
    \<and> calls (snd (controlCallback msg s))
        = calls s @ exposure_call msg s
            @ (if exposure_throws d msg s then [] else gain_call msg s)
    \<and> (\<not> exposure_due msg s \<longrightarrow> exposure_call msg s = [])
    \<and> (\<not> gain_due msg s \<longrightarrow> gain_call msg s = [])
    \<and> currentExposureTime (snd (controlCallback msg s))
        = (if exposure_call msg s = [] \<or> exposure_throws d msg s then currentExposureTime s
           else exposure_time msg)
    \<and> currentGain (snd (controlCallback msg s))
        = (if gain_call msg s = [] \<or> exposure_throws d msg s \<or> gain_throws d msg s
           then currentGain s else gain msg)
    \<and> (\<not> exposure_throws d msg s \<and> \<not> gain_throws d msg s \<longrightarrow>
         calls (snd (controlCallback msg (snd (controlCallback msg s))))
           = calls (snd (controlCallback msg s))
       \<and> currentExposureTime (snd (controlCallback msg (snd (controlCallback msg s))))
           = currentExposureTime (snd (controlCallback msg s))
       \<and> currentGain (snd (controlCallback msg (snd (controlCallback msg s))))
           = currentGain (snd (controlCallback msg s)))"
proof -
  obtain s' where cc: "controlCallback msg s = (None, s')"
    and d': "driver s' = Some d" and m': "parameterMap s' = parameterMap s"
    and c': "calls s' = calls s @ exposure_call msg s
           @ (if exposure_throws d msg s then [] else gain_call msg s)"
    and e': "currentExposureTime s' =
           (if exposure_call msg s = [] \<or> exposure_throws d msg s then currentExposureTime s
            else exposure_time msg)"
    and g': "currentGain s' =
           (if gain_call msg s = [] \<or> exposure_throws d msg s \<or> gain_throws d msg s
            then currentGain s else gain msg)"
    by (rule controlCallback_summary [OF assms, of msg]) blast
  obtain s'' where cc2: "controlCallback msg s' = (None, s'')"
    and c'': "calls s'' = calls s' @ exposure_call msg s'
           @ (if exposure_throws d msg s' then [] else gain_call msg s')"
    and e'': "currentExposureTime s'' =
           (if exposure_call msg s' = [] \<or> exposure_throws d msg s' then currentExposureTime s'
            else exposure_time msg)"
    and g'': "currentGain s'' =
           (if gain_call msg s' = [] \<or> exposure_throws d msg s' \<or> gain_throws d msg s'
            then currentGain s' else gain msg)"
    by (rule controlCallback_summary [OF d', of msg]) blast
  have ne: "\<not> exposure_due msg s \<longrightarrow> exposure_call msg s = []"
    by (simp add: exposure_call_def field_call_def split: option.splits)
  have ng: "\<not> gain_due msg s \<longrightarrow> gain_call msg s = []"
    by (simp add: gain_call_def field_call_def split: option.splits)
  have twice: "calls s'' = calls s' \<and> currentExposureTime s'' = currentExposureTime s'
      \<and> currentGain s'' = currentGain s'"
    if q: "\<not> exposure_throws d msg s" "\<not> gain_throws d msg s"
  proof -
    have "exposure_call msg s' = []"
      using e' q m' by (cases "exposure_call msg s = []")
        (auto simp: exposure_call_def field_call_def exposure_due_def split: option.splits)
    moreover have "gain_call msg s' = []"
      using g' q m' by (cases "gain_call msg s = []")
        (auto simp: gain_call_def field_call_def gain_due_def split: option.splits)
    ultimately show ?thesis using c'' e'' g'' by simp
  qed
  show ?thesis
    unfolding cc cc2 fst_conv snd_conv
    using c' e' g' ne ng twice by blast
qed

theorem control_update_without_success_counterexample:
  "fst (setDouble ''ExposureTime'' (Finite 5000) (demo\<lparr>driver := Some deaf_driver\<rparr>))
     = Inr False
   \<and> currentExposureTime (demo\<lparr>driver := Some deaf_driver\<rparr>) = 0
   \<and> currentExposureTime (snd (controlCallback \<lparr>exposure_time = 5000, gain = 2\<rparr>
        (demo\<lparr>driver := Some deaf_driver\<rparr>))) = 5000
   \<and> calls (snd (controlCallback \<lparr>exposure_time = 5000, gain = 2\<rparr>
        (demo\<lparr>driver := Some deaf_driver\<rparr>)))
       = [SetDouble ''ExposureTime'' (Finite 5000), SetDouble ''Gain'' (Finite 2)]"
  by (simp add: demo_fields float_lowest_less
      controlCallback_def control_exposure_def control_gain_def setDouble_def LOG_def Let_def
      NodeInfo_ctor_def control_report_def deaf_driver_def echo_driver_def)

theorem control_applies_on_change_witness:
  "driver (demo\<lparr>driver := Some deaf_driver\<rparr>) = Some deaf_driver
   \<and> \<not> exposure_throws deaf_driver \<lparr>exposure_time = 5000, gain = 2\<rparr>
         (demo\<lparr>driver := Some deaf_driver\<rparr>)
   \<and> \<not> gain_throws deaf_driver \<lparr>exposure_time = 5000, gain = 2\<rparr>
         (demo\<lparr>driver := Some deaf_driver\<rparr>)
   \<and> calls (snd (controlCallback \<lparr>exposure_time = 5000, gain = 2\<rparr>
        (demo\<lparr>driver := Some deaf_driver\<rparr>)))
       = [SetDouble ''ExposureTime'' (Finite 5000), SetDouble ''Gain'' (Finite 2)]
   \<and> calls (snd (controlCallback \<lparr>exposure_time = 5000, gain = 2\<rparr>
        (snd (controlCallback \<lparr>exposure_time = 5000, gain = 2\<rparr>
           (demo\<lparr>driver := Some deaf_driver\<rparr>)))))
       = [SetDouble ''ExposureTime'' (Finite 5000), SetDouble ''Gain'' (Finite 2)]
   \<and> \<not> exposure_due \<lparr>exposure_time = 0, gain = 2\<rparr> (demo\<lparr>driver := Some deaf_driver\<rparr>)
   \<and> currentExposureTime (snd (controlCallback \<lparr>exposure_time = 0, gain = 2\<rparr>
        (demo\<lparr>driver := Some deaf_driver\<rparr>))) = 0
   \<and> gain_throws gain_rejecting_driver \<lparr>exposure_time = 5000, gain = 2\<rparr>
         (demo\<lparr>driver := Some gain_rejecting_driver\<rparr>)
   \<and> currentGain (snd (controlCallback \<lparr>exposure_time = 5000, gain = 2\<rparr>
        (demo\<lparr>driver := Some gain_rejecting_driver\<rparr>))) = float_lowest
   \<and> currentExposureTime (snd (controlCallback \<lparr>exposure_time = 5000, gain = 2\<rparr>
        (demo\<lparr>driver := Some gain_rejecting_driver\<rparr>))) = 5000
   \<and> calls (snd (controlCallback \<lparr>exposure_time = 5000, gain = 2\<rparr>
        (demo\<lparr>driver := Some gain_rejecting_driver\<rparr>)))
       = [SetDouble ''ExposureTime'' (Finite 5000), SetDouble ''Gain'' (Finite 2)]
   \<and> gain_throws gain_rejecting_driver \<lparr>exposure_time = 0, gain = 2\<rparr>
         (demo\<lparr>driver := Some gain_rejecting_driver\<rparr>)
   \<and> currentGain (snd (controlCallback \<lparr>exposure_time = 0, gain = 2\<rparr>
        (demo\<lparr>driver := Some gain_rejecting_driver\<rparr>))) = float_lowest
   \<and> calls (snd (controlCallback \<lparr>exposure_time = 0, gain = 2\<rparr>
        (demo\<lparr>driver := Some gain_rejecting_driver\<rparr>))) = [SetDouble ''Gain'' (Finite 2)]"
proof -
  let ?s = "demo\<lparr>driver := Some deaf_driver\<rparr>"
  let ?g = "demo\<lparr>driver := Some gain_rejecting_driver\<rparr>"
  let ?msg = "\<lparr>exposure_time = 5000, gain = 2\<rparr>"
  let ?idle = "\<lparr>exposure_time = 0, gain = 2\<rparr>"
  have h: "driver ?s = Some deaf_driver" by simp
  have hg: "driver ?g = Some gain_rejecting_driver" by simp
  have ed: "exposure_due ?msg ?s" by (simp add: exposure_due_def demo_fields)
  have gd: "gain_due ?msg ?s" by (simp add: gain_due_def demo_fields float_lowest_less)
  have ec: "exposure_call ?msg ?s = [SetDouble ''ExposureTime'' (Finite 5000)]"
    by (simp add: exposure_call_def field_call_def ed demo_fields NodeInfo_ctor_def)
  have gc: "gain_call ?msg ?s = [SetDouble ''Gain'' (Finite 2)]"
    by (simp add: gain_call_def field_call_def gd demo_fields NodeInfo_ctor_def)
  have q: "drv_setDouble deaf_driver hist n v = Inr (''ERROR'', Finite 0)" for hist n v
    by (simp add: deaf_driver_def)
  have et: "\<not> exposure_throws deaf_driver ?msg ?s"
    unfolding exposure_throws_def call_throws_def ec by (simp add: q)
  have gt: "\<not> gain_throws deaf_driver ?msg ?s"
    unfolding gain_throws_def call_throws_def ec gc by (simp add: q)
  have nd: "\<not> exposure_due ?idle ?s" by (simp add: exposure_due_def)
  have edg: "exposure_due ?msg ?g" by (simp add: exposure_due_def demo_fields)
  have gdg: "gain_due ?msg ?g" by (simp add: gain_due_def demo_fields float_lowest_less)
  have ecg: "exposure_call ?msg ?g = [SetDouble ''ExposureTime'' (Finite 5000)]"
    by (simp add: exposure_call_def field_call_def edg demo_fields NodeInfo_ctor_def)
  have gcg: "gain_call ?msg ?g = [SetDouble ''Gain'' (Finite 2)]"
    by (simp add: gain_call_def field_call_def gdg demo_fields NodeInfo_ctor_def)
  have qe: "drv_setDouble gain_rejecting_driver hist ''ExposureTime'' v = Inr (''OK'', v)"
    for hist v
    by (simp add: gain_rejecting_driver_def)
  have qg: "drv_setDouble gain_rejecting_driver hist ''Gain'' v = Inl ''gain rejected''"
    for hist v
    by (simp add: gain_rejecting_driver_def)
  have etg: "\<not> exposure_throws gain_rejecting_driver ?msg ?g"
    unfolding exposure_throws_def call_throws_def ecg by (simp add: qe)
  have gtg: "gain_throws gain_rejecting_driver ?msg ?g"
    unfolding gain_throws_def exposure_throws_def call_throws_def ecg gcg
    by (simp add: qe qg)
  from control_applies_on_change [OF h, of ?msg] et gt
  have a: "calls (snd (controlCallback ?msg ?s))
        = calls ?s @ exposure_call ?msg ?s
            @ (if exposure_throws deaf_driver ?msg ?s then [] else gain_call ?msg ?s)"
    and b: "calls (snd (controlCallback ?msg (snd (controlCallback ?msg ?s))))
        = calls (snd (controlCallback ?msg ?s))"
    by blast+
  from a et have w1: "calls (snd (controlCallback ?msg ?s))
       = [SetDouble ''ExposureTime'' (Finite 5000), SetDouble ''Gain'' (Finite 2)]"
    by (simp add: ec gc demo_fields)
  from control_applies_on_change [OF h, of ?idle] nd
  have "exposure_call ?idle ?s = []"
    and "currentExposureTime (snd (controlCallback ?idle ?s))
        = (if exposure_call ?idle ?s = [] \<or> exposure_throws deaf_driver ?idle ?s
           then currentExposureTime ?s else exposure_time ?idle)"
    by blast+
  then have w2: "currentExposureTime (snd (controlCallback ?idle ?s)) = 0"
    by (simp add: demo_fields)
  from control_applies_on_change [OF hg, of ?msg]
  have "currentGain (snd (controlCallback ?msg ?g))
        = (if gain_call ?msg ?g = [] \<or> exposure_throws gain_rejecting_driver ?msg ?g
              \<or> gain_throws gain_rejecting_driver ?msg ?g
           then currentGain ?g else gain ?msg)"
    and "currentExposureTime (snd (controlCallback ?msg ?g))
        = (if exposure_call ?msg ?g = [] \<or> exposure_throws gain_rejecting_driver ?msg ?g
           then currentExposureTime ?g else exposure_time ?msg)"
    and "calls (snd (controlCallback ?msg ?g))
        = calls ?g @ exposure_call ?msg ?g
            @ (if exposure_throws gain_rejecting_driver ?msg ?g then [] else gain_call ?msg ?g)"
    by blast+
  then have w3: "currentGain (snd (controlCallback ?msg ?g)) = float_lowest"
    and w4: "currentExposureTime (snd (controlCallback ?msg ?g)) = 5000"
    and w5: "calls (snd (controlCallback ?msg ?g))
       = [SetDouble ''ExposureTime'' (Finite 5000), SetDouble ''Gain'' (Finite 2)]"
    using gtg etg by (simp_all add: ecg gcg demo_fields)
  have ndg: "\<not> exposure_due ?idle ?g" by (simp add: exposure_due_def)
  have gdi: "gain_due ?idle ?g" by (simp add: gain_due_def demo_fields float_lowest_less)
  have eci: "exposure_call ?idle ?g = []"
    by (simp add: exposure_call_def field_call_def ndg split: option.splits)
  have gci: "gain_call ?idle ?g = [SetDouble ''Gain'' (Finite 2)]"
    by (simp add: gain_call_def field_call_def gdi demo_fields NodeInfo_ctor_def)
  have eti: "\<not> exposure_throws gain_rejecting_driver ?idle ?g"
    unfolding exposure_throws_def call_throws_def eci by simp
  have gti: "gain_throws gain_rejecting_driver ?idle ?g"
    unfolding gain_throws_def exposure_throws_def call_throws_def eci gci
    by (simp add: qg)
  from control_applies_on_change [OF hg, of ?idle]
  have "currentGain (snd (controlCallback ?idle ?g))
        = (if gain_call ?idle ?g = [] \<or> exposure_throws gain_rejecting_driver ?idle ?g
              \<or> gain_throws gain_rejecting_driver ?idle ?g
           then currentGain ?g else gain ?idle)"
    and "calls (snd (controlCallback ?idle ?g))
        = calls ?g @ exposure_call ?idle ?g
            @ (if exposure_throws gain_rejecting_driver ?idle ?g then []
               else gain_call ?idle ?g)"
    by blast+
  then have w6: "currentGain (snd (controlCallback ?idle ?g)) = float_lowest"
    and w7: "calls (snd (controlCallback ?idle ?g)) = [SetDouble ''Gain'' (Finite 2)]"
    using gti eti by (simp_all add: eci gci demo_fields)
  from h et gt w1 b nd w2 gtg w3 w4 w5 gti w6 w7 show ?thesis by simp
qed

section \<open>Properties of the startup\<close>

lemma foldl_LOG:
  "foldl (\<lambda>a x. LOG lvl (f x) a) s xs = s\<lparr>logged := logged s @ map (\<lambda>x. (lvl, f x)) xs\<rparr>"
  by (induction xs arbitrary: s) (simp_all add: LOG_def)

lemma find_camera_result:
  "\<exists>l. find_camera d rs s =
     (list_ex (\<lambda>retry. serial s \<in> set (drv_getSerialNumbers d retry)) rs,
      s\<lparr>logged := logged s @ l\<rparr>)"
proof (induction rs arbitrary: s)
  case Nil
  have "s = s\<lparr>logged := logged s @ []\<rparr>" by simp
  then have "find_camera d [] s =
      (list_ex (\<lambda>retry. serial s \<in> set (drv_getSerialNumbers d retry)) [],
       s\<lparr>logged := logged s @ []\<rparr>)"
    by simp
  then show ?case by blast
next
  case (Cons retry rs)
  show ?case
  proof (cases "serial s \<in> set (drv_getSerialNumbers d retry)")
    case True
    then have "find_camera d (retry # rs) s =
        (True, s\<lparr>logged := logged s @
           [(INFO, [Txt ''found camera with serial number: '', Txt (serial s)])]\<rparr>)"
      by (simp add: LOG_def)
    with True show ?thesis by auto
  next
    case False
    let ?s1 = "s\<lparr>logged := logged s @
        ((WARN, [Txt ''no camera found with serial: '', Txt (serial s),
                 Txt '' on try # '', Num (int retry)]) #
         map (\<lambda>cam. (WARN, [Txt ''found cameras: '', Txt cam]))
           (drv_getSerialNumbers d retry))\<rparr>"
    have step: "find_camera d (retry # rs) s = find_camera d rs ?s1"
      using False by (simp add: foldl_LOG Let_def, simp add: LOG_def)
    from Cons.IH [of ?s1] obtain l where
      "find_camera d rs ?s1 =
         (list_ex (\<lambda>retry. serial ?s1 \<in> set (drv_getSerialNumbers d retry)) rs,
          ?s1\<lparr>logged := logged ?s1 @ l\<rparr>)"
      by blast
    with step False show ?thesis by auto
  qed
qed

lemma retries: "[1..<6] = [1, 2, 3, 4, 5::nat]"
  by (simp add: upt_rec)

lemma start_unreadable:
  assumes "fs (parameterFile (readParameters opts s)) = None"
  shows "fst (start opts tok fs d s) = False"
  unfolding start_def readParameterFile_def assms option.case prod.case
  by simp

lemma start_searched:
  assumes "fs (parameterFile (readParameters opts s)) = Some ls"
    and "find_camera d [1..<6]
           (LOG INFO [Txt ''using spinnaker lib version: '', Txt (drv_getLibraryVersion d)]
              ((read_lines tok ls (readParameters opts s))\<lparr>driver := Some d\<rparr>)) = (found, s4)"
  shows "fst (start opts tok fs d s) = found"
  unfolding start_def readParameterFile_def assms(1) option.case prod.case Let_def assms(2)
  by (cases found) simp_all

lemma start_init_failed:
  assumes "fs (parameterFile (readParameters opts s)) = Some ls"
    and "find_camera d [1..<6]
           (LOG INFO [Txt ''using spinnaker lib version: '', Txt (drv_getLibraryVersion d)]
              ((read_lines tok ls (readParameters opts s))\<lparr>driver := Some d\<rparr>)) = (True, s4)"
    and "\<not> drv_initCamera d (serial s4)"
  shows "start opts tok fs d s =
     (True, LOG ERROR [Txt ''init camera failed for cam: '', Txt (serial s4)]
              (s4\<lparr>keepRunning := True, thread := True\<rparr>))"
  unfolding start_def readParameterFile_def assms(1) option.case prod.case Let_def assms(2)
    bool.case
  using assms(3) by simp

lemma readParameters_fields:
  "parameterFile (readParameters opts s)
     = declare_parameter (opt_parameter_file opts) ''parameters.cfg''"
  "serial (readParameters opts s)
     = declare_parameter (opt_serial_number opts) ''missing_serial_number''"
  "cameraRunning (readParameters opts s) = cameraRunning s"
  "declared (readParameters opts s) = declared s"
  "calls (readParameters opts s) = calls s"
  by (simp_all add: readParameters_def LOG_def Let_def
      split: option.splits ParameterValue.splits)

text \<open>What \<^verbatim>\<open>start\<close> returns, and the node it leaves when \<^verbatim>\<open>initCamera\<close> fails.\<close>

lemma start_result:
  "fst (start opts tok fs d s) =
     (fs (declare_parameter (opt_parameter_file opts) ''parameters.cfg'') \<noteq> None
      \<and> camera_found d (declare_parameter (opt_serial_number opts) ''missing_serial_number''))"
proof (cases "fs (declare_parameter (opt_parameter_file opts) ''parameters.cfg'')")
  case None
  then show ?thesis by (simp add: start_unreadable readParameters_fields)
next
  case (Some ls)
  let ?s3 = "LOG INFO [Txt ''using spinnaker lib version: '', Txt (drv_getLibraryVersion d)]
              ((read_lines tok ls (readParameters opts s))\<lparr>driver := Some d\<rparr>)"
  have sn3: "serial ?s3 = declare_parameter (opt_serial_number opts) ''missing_serial_number''"
    by (simp add: read_lines_result readParameters_fields LOG_def)
  from find_camera_result [of d "[1..<6]" ?s3] obtain l where
    fc: "find_camera d [1..<6] ?s3 =
      (camera_found d (declare_parameter (opt_serial_number opts) ''missing_serial_number''),
       ?s3\<lparr>logged := logged ?s3 @ l\<rparr>)"
    unfolding sn3 camera_found_def retries by blast
  have f: "fs (parameterFile (readParameters opts s)) = Some ls"
    using Some by (simp add: readParameters_fields)
  show ?thesis
    using start_searched [where fs = fs and tok = tok, OF f fc] Some by simp
qed

lemma start_without_init:
  assumes "fs (declare_parameter (opt_parameter_file opts) ''parameters.cfg'') = Some ls"
    and "camera_found d (declare_parameter (opt_serial_number opts) ''missing_serial_number'')"
    and "\<not> drv_initCamera d
           (declare_parameter (opt_serial_number opts) ''missing_serial_number'')"
  shows "\<exists>l. start opts tok fs d s =
     (True,
      (read_lines tok ls (readParameters opts s))
        \<lparr>driver := Some d, keepRunning := True, thread := True,
         logged := l @ [(ERROR, [Txt ''init camera failed for cam: '',
           Txt (declare_parameter (opt_serial_number opts) ''missing_serial_number'')])]\<rparr>)"
proof -
  let ?sn = "declare_parameter (opt_serial_number opts) ''missing_serial_number''"
  let ?s2 = "read_lines tok ls (readParameters opts s)"
  let ?s3 = "LOG INFO [Txt ''using spinnaker lib version: '', Txt (drv_getLibraryVersion d)]
              (?s2\<lparr>driver := Some d\<rparr>)"
  have sn3: "serial ?s3 = ?sn"
    by (simp add: read_lines_result readParameters_fields LOG_def)
  from find_camera_result [of d "[1..<6]" ?s3] obtain l where
    "find_camera d [1..<6] ?s3 = (camera_found d ?sn, ?s3\<lparr>logged := logged ?s3 @ l\<rparr>)"
    unfolding sn3 camera_found_def retries by blast
  with assms(2) have fc: "find_camera d [1..<6] ?s3 = (True, ?s3\<lparr>logged := logged ?s3 @ l\<rparr>)"
    by simp
  have f: "fs (parameterFile (readParameters opts s)) = Some ls"
    using assms(1) by (simp add: readParameters_fields)
  have "serial (?s3\<lparr>logged := logged ?s3 @ l\<rparr>) = serial ?s3" by simp
  then have sn4: "serial (?s3\<lparr>logged := logged ?s3 @ l\<rparr>) = ?sn"
    by (simp only: sn3)
  have i: "\<not> drv_initCamera d (serial (?s3\<lparr>logged := logged ?s3 @ l\<rparr>))"
    unfolding sn4 by (rule assms(3))
  note st = start_init_failed [where fs = fs and tok = tok, OF f fc i, unfolded sn4]
  have eq: "LOG ERROR [Txt ''init camera failed for cam: '', Txt ?sn]
        (?s3\<lparr>logged := logged ?s3 @ l, keepRunning := True, thread := True\<rparr>)
      = ?s2\<lparr>driver := Some d, keepRunning := True, thread := True,
         logged := (logged ?s3 @ l) @ [(ERROR, [Txt ''init camera failed for cam: '',
           Txt ?sn])]\<rparr>"
    by (simp add: LOG_def)
  have "start opts tok fs d s =
     (True,
      ?s2\<lparr>driver := Some d, keepRunning := True, thread := True,
         logged := (logged ?s3 @ l) @ [(ERROR, [Txt ''init camera failed for cam: '',
           Txt ?sn])]\<rparr>)"
    unfolding st eq by (rule refl)
  then show ?thesis by (rule exI [of _ "logged ?s3 @ l"])
qed


lemma ctor_result:
  "(CameraDriver_ctor opts tok fs d t :: string + 'f CameraDriver)
     = Inl ''startup of CameraDriver node failed!''
   \<longleftrightarrow> \<not> fst (start opts tok fs d ((fresh :: 'f CameraDriver)\<lparr>lastStatusTime := t\<rparr>))"
proof -
  obtain b s' where r: "start opts tok fs d ((fresh :: 'f CameraDriver)\<lparr>lastStatusTime := t\<rparr>)
      = (b, s')"
    by (cases "start opts tok fs d ((fresh :: 'f CameraDriver)\<lparr>lastStatusTime := t\<rparr>)")
  show ?thesis unfolding CameraDriver_ctor_def r by (cases b) simp_all
qed

lemma demo_start_facts:
  "declare_parameter (opt_parameter_file demo_opts) ''parameters.cfg'' = ''parameters.cfg''"
  "declare_parameter (opt_serial_number demo_opts) ''missing_serial_number'' = ''20435008''"
  "demo_fs ''parameters.cfg'' = Some demo_file"
  "camera_found echo_driver ''20435008''"
  "camera_found broken_driver ''20435008''"
  "camera_found late_driver ''20435008''"
  "\<not> camera_found absent_driver ''20435008''"
  "\<not> drv_initCamera broken_driver ''20435008''"
  by (simp_all add: declare_parameter_def demo_opts_def demo_fs_def camera_found_def
      echo_driver_def broken_driver_def late_driver_def absent_driver_def)

text \<open>
  Claim C2, as the code has it. \<^verbatim>\<open>start\<close> reports failure, and the constructor throws,
  exactly when the parameter file cannot be opened or no retry from 1 to 5 finds the
  camera. When the file opens and the camera is found but \<^verbatim>\<open>initCamera\<close> fails, \<^verbatim>\<open>start\<close>
  reports success: it logs the error as its last message, declares no camera parameter,
  does not start the camera, and leaves the node with its driver, its thread and
  \<^verbatim>\<open>keepRunning_\<close> set.
\<close>

theorem start_fatal_failures:
  fixes s :: "'f CameraDriver"
  shows "fst (start opts tok fs d s) =
       (fs (declare_parameter (opt_parameter_file opts) ''parameters.cfg'') \<noteq> None
        \<and> camera_found d (declare_parameter (opt_serial_number opts) ''missing_serial_number''))
    \<and> ((CameraDriver_ctor opts tok fs d t :: string + 'f CameraDriver)
          = Inl ''startup of CameraDriver node failed!''
        \<longleftrightarrow> \<not> (fs (declare_parameter (opt_parameter_file opts) ''parameters.cfg'') \<noteq> None
              \<and> camera_found d
                  (declare_parameter (opt_serial_number opts) ''missing_serial_number'')))
    \<and> (fs (declare_parameter (opt_parameter_file opts) ''parameters.cfg'') = Some ls
       \<and> camera_found d (declare_parameter (opt_serial_number opts) ''missing_serial_number'')
       \<and> \<not> drv_initCamera d
             (declare_parameter (opt_serial_number opts) ''missing_serial_number'')
       \<longrightarrow>
         fst (start opts tok fs d s)
       \<and> last (logged (snd (start opts tok fs d s)))
           = (ERROR, [Txt ''init camera failed for cam: '',
                Txt (declare_parameter (opt_serial_number opts) ''missing_serial_number'')])
       \<and> cameraRunning (snd (start opts tok fs d s)) = cameraRunning s
       \<and> declared (snd (start opts tok fs d s)) = declared s
       \<and> calls (snd (start opts tok fs d s)) = calls s
       \<and> driver (snd (start opts tok fs d s)) = Some d
       \<and> keepRunning (snd (start opts tok fs d s))
       \<and> thread (snd (start opts tok fs d s)))"
proof -
  let ?pf = "declare_parameter (opt_parameter_file opts) ''parameters.cfg''"
  let ?sn = "declare_parameter (opt_serial_number opts) ''missing_serial_number''"
  have a: "fst (start opts tok fs d s) = (fs ?pf \<noteq> None \<and> camera_found d ?sn)"
    by (rule start_result)
  have b: "(CameraDriver_ctor opts tok fs d t :: string + 'f CameraDriver)
          = Inl ''startup of CameraDriver node failed!''
        \<longleftrightarrow> \<not> (fs ?pf \<noteq> None \<and> camera_found d ?sn)"
    unfolding ctor_result start_result ..
  have c: "fst (start opts tok fs d s)
       \<and> last (logged (snd (start opts tok fs d s)))
           = (ERROR, [Txt ''init camera failed for cam: '', Txt ?sn])
       \<and> cameraRunning (snd (start opts tok fs d s)) = cameraRunning s
       \<and> declared (snd (start opts tok fs d s)) = declared s
       \<and> calls (snd (start opts tok fs d s)) = calls s
       \<and> driver (snd (start opts tok fs d s)) = Some d
       \<and> keepRunning (snd (start opts tok fs d s))
       \<and> thread (snd (start opts tok fs d s))"
    if h: "fs ?pf = Some ls" "camera_found d ?sn" "\<not> drv_initCamera d ?sn"
  proof -
    from start_without_init [where fs = fs and opts = opts and tok = tok and s = s, OF h]
    obtain l where
      st: "start opts tok fs d s =
        (True,
         (read_lines tok ls (readParameters opts s))
           \<lparr>driver := Some d, keepRunning := True, thread := True,
            logged := l @ [(ERROR, [Txt ''init camera failed for cam: '', Txt ?sn])]\<rparr>)"
      by blast
    show ?thesis
      unfolding st by (simp add: read_lines_result readParameters_fields)
  qed
  from a b c show ?thesis by blast
qed

theorem init_failure_not_fatal_counterexample:
  "demo_fs (declare_parameter (opt_parameter_file demo_opts) ''parameters.cfg'') \<noteq> None
   \<and> camera_found broken_driver ''20435008''
   \<and> \<not> drv_initCamera broken_driver
         (declare_parameter (opt_serial_number demo_opts) ''missing_serial_number'')
   \<and> fst (start demo_opts quoted_tokens demo_fs broken_driver (fresh :: nat CameraDriver))
   \<and> (CameraDriver_ctor demo_opts quoted_tokens demo_fs broken_driver 0
         :: string + nat CameraDriver) \<noteq> Inl ''startup of CameraDriver node failed!''"
  by (simp add: ctor_result start_result demo_start_facts)

theorem start_fatal_failures_witness:
  "demo_fs (declare_parameter (opt_parameter_file demo_opts) ''parameters.cfg'') = Some demo_file
   \<and> camera_found broken_driver
        (declare_parameter (opt_serial_number demo_opts) ''missing_serial_number'')
   \<and> \<not> drv_initCamera broken_driver
         (declare_parameter (opt_serial_number demo_opts) ''missing_serial_number'')
   \<and> fst (start demo_opts quoted_tokens demo_fs broken_driver (fresh :: nat CameraDriver))
   \<and> \<not> cameraRunning (snd (start demo_opts quoted_tokens demo_fs broken_driver
           (fresh :: nat CameraDriver)))
   \<and> declared (snd (start demo_opts quoted_tokens demo_fs broken_driver
           (fresh :: nat CameraDriver))) = []
   \<and> \<not> fst (start demo_opts quoted_tokens demo_fs absent_driver (fresh :: nat CameraDriver))
   \<and> fst (start demo_opts quoted_tokens demo_fs late_driver (fresh :: nat CameraDriver))
   \<and> \<not> fst (start (demo_opts\<lparr>opt_parameter_file := Some ''missing.cfg''\<rparr>) quoted_tokens
           demo_fs echo_driver (fresh :: nat CameraDriver))"
proof -
  let ?pf = "declare_parameter (opt_parameter_file demo_opts) ''parameters.cfg''"
  let ?sn = "declare_parameter (opt_serial_number demo_opts) ''missing_serial_number''"
  let ?f = "fresh :: nat CameraDriver"
  have h1: "demo_fs ?pf = Some demo_file" by (simp add: demo_start_facts)
  have h2: "camera_found broken_driver ?sn" by (simp add: demo_start_facts)
  have h3: "\<not> drv_initCamera broken_driver ?sn" by (simp add: demo_start_facts)
  from start_fatal_failures [of demo_opts quoted_tokens demo_fs broken_driver ?f 0 demo_file]
    h1 h2 h3
  have "fst (start demo_opts quoted_tokens demo_fs broken_driver ?f)"
    and "cameraRunning (snd (start demo_opts quoted_tokens demo_fs broken_driver ?f))
          = cameraRunning ?f"
    and "declared (snd (start demo_opts quoted_tokens demo_fs broken_driver ?f)) = declared ?f"
    by blast+
  then have w1: "fst (start demo_opts quoted_tokens demo_fs broken_driver ?f)"
    and w2: "\<not> cameraRunning (snd (start demo_opts quoted_tokens demo_fs broken_driver ?f))"
    and w3: "declared (snd (start demo_opts quoted_tokens demo_fs broken_driver ?f)) = []"
    by (simp_all add: fresh_def)
  from start_fatal_failures [of demo_opts quoted_tokens demo_fs absent_driver ?f 0 demo_file]
  have w4: "\<not> fst (start demo_opts quoted_tokens demo_fs absent_driver ?f)"
    by (simp add: demo_start_facts)
  from start_fatal_failures [of demo_opts quoted_tokens demo_fs late_driver ?f 0 demo_file]
  have w5: "fst (start demo_opts quoted_tokens demo_fs late_driver ?f)"
    by (simp add: demo_start_facts)
  from start_fatal_failures [of "demo_opts\<lparr>opt_parameter_file := Some ''missing.cfg''\<rparr>"
      quoted_tokens demo_fs echo_driver ?f 0 demo_file]
  have w6: "\<not> fst (start (demo_opts\<lparr>opt_parameter_file := Some ''missing.cfg''\<rparr>)
      quoted_tokens demo_fs echo_driver ?f)"
    by (simp add: declare_parameter_def demo_fs_def)
  from h1 h2 h3 w1 w2 w3 w4 w5 w6 show ?thesis by blast
qed

end
